theory Spec2Isabelle
  imports Main "HOL-Library.Word"
begin

section \<open>Data model of the firmware (version 2.1)\<close>

text \<open>
  Every scalar of the firmware is a \<open>uint8_t\<close>; it is modelled as an 8-bit word, so
  that \<open>+\<close> and \<open>-\<close> wrap as they do on the microcontroller. Where C promotes the
  operands of an expression to \<open>int\<close> before computing (a difference or a sum that is
  compared, not stored), the model reads the words with \<open>unat\<close> and computes on
  \<open>int\<close> or \<open>nat\<close>.
\<close>

type_synonym u8 = "8 word"

text \<open>\<open>struct TIME\<close>: a time of day.\<close>

record TIME =
  hours :: u8
  minutes :: u8

text \<open>An in-range time of day: hour 0..23, minute 0..59.\<close>

definition time_in_range :: "TIME \<Rightarrow> bool" where
  "time_in_range t = (hours t \<le> 23 \<and> minutes t \<le> 59)"

section \<open>Clock keeper: \<open>time_task\<close>\<close>

text \<open>
  The globals \<open>globalTime\<close> and \<open>sec\<close>. One iteration of the task's loop takes the
  sample \<open>rtc\<close> that \<open>RTC.getMinutes()\<close> returns during that iteration.
\<close>

record clock =
  globalTime :: TIME
  sec :: u8

text \<open>The first \<open>if\<close> of the loop body: the local one-second increment.\<close>

definition time_increment :: "clock \<Rightarrow> clock" where
  "time_increment c =
     (if 59 \<le> sec c then
        c\<lparr>sec := 0,
          globalTime :=
            (if minutes (globalTime c) = 59 then
               (globalTime c)\<lparr>minutes := 0,
                 hours := (if hours (globalTime c) = 23 then 0 else hours (globalTime c) + 1)\<rparr>
             else (globalTime c)\<lparr>minutes := minutes (globalTime c) + 1\<rparr>)\<rparr>
      else c\<lparr>sec := sec c + 1\<rparr>)"

text \<open>
  The second \<open>if\<close> of the loop body: the comparison with the RTC. Both differences are
  computed on promoted \<open>int\<close> values, so neither wraps.
\<close>

definition rtc_reset :: "u8 \<Rightarrow> clock \<Rightarrow> clock" where
  "rtc_reset rtc c =
     (if rtc \<noteq> minutes (globalTime c) then
        (if 1 < int (unat rtc) - int (unat (minutes (globalTime c)))
            \<or> 1 < int (unat (minutes (globalTime c))) - int (unat rtc)
         then c\<lparr>globalTime := (globalTime c)\<lparr>minutes := rtc\<rparr>\<rparr>
         else c)
      else c)"

text \<open>One iteration of \<open>time_task\<close>: increment, then compare with the RTC.\<close>

definition time_task :: "u8 \<Rightarrow> clock \<Rightarrow> clock" where
  "time_task rtc c = rtc_reset rtc (time_increment c)"

section \<open>Lamp evaluator: \<open>lamp_task\<close>\<close>

text \<open>
  \<open>struct LAMP\<close>. The field \<open>active\<close> of the three device structs is named
  \<open>lamp_active\<close>, \<open>buse_active\<close> and \<open>extra_active\<close> here, and \<open>tOn\<close> is
  \<open>buse_tOn\<close> and \<open>extra_tOn\<close>, since record fields of one theory share a name space.
\<close>

record LAMP =
  onH :: TIME
  offH :: TIME
  lamp_active :: u8

text \<open>
  What the task writes: the level of each \<open>lampPin[i]\<close> (the relay board works in
  reverse logic: level 0 switches the lamp on, level 1 switches it off), the bit set
  \<open>lampNbr\<close> and the level of \<open>ledFond\<close>.
\<close>

record lamp_out =
  lampPin :: "nat list"
  lampNbr :: u8
  ledFond :: nat

definition lamp_on :: "nat \<Rightarrow> lamp_out \<Rightarrow> lamp_out" where
  "lamp_on i out = out\<lparr>lampPin := (lampPin out)[i := 0], lampNbr := or (lampNbr out) (push_bit i 1)\<rparr>"

definition lamp_off :: "nat \<Rightarrow> lamp_out \<Rightarrow> lamp_out" where
  "lamp_off i out = out\<lparr>lampPin := (lampPin out)[i := 1], lampNbr := and (lampNbr out) (not (push_bit i 1))\<rparr>"

text \<open>The body of the \<open>for\<close> loop, for lamp \<open>i\<close>; a path that writes nothing returns \<open>out\<close>.\<close>

definition lamp_body :: "TIME \<Rightarrow> nat \<Rightarrow> LAMP \<Rightarrow> lamp_out \<Rightarrow> lamp_out" where
  "lamp_body now i l out =
     (if lamp_active l \<noteq> 0 then
        (if hours now = hours (onH l) \<and> minutes (onH l) \<ge> minutes now then lamp_on i out
         else if hours now > hours (onH l) \<and> hours now < hours (offH l) then lamp_on i out
         else if hours now = hours (offH l) then
           (if minutes now < minutes (offH l) then lamp_on i out else lamp_off i out)
         else out)
      else out\<lparr>lampPin := (lampPin out)[i := 1]\<rparr>)"

text \<open>One iteration of \<open>lamp_task\<close>: the three lamps in order, then \<open>ledFond\<close>.\<close>

definition lamp_task :: "TIME \<Rightarrow> LAMP list \<Rightarrow> lamp_out \<Rightarrow> lamp_out" where
  "lamp_task now lamps out =
     (let out3 = fold (\<lambda>i. lamp_body now i (lamps ! i)) [0, 1, 2] out
      in out3\<lparr>ledFond := (if lampNbr out3 = 0 then 0 else 1)\<rparr>)"

text \<open>
  The boundary rule as the specification words it: active if (hour = onHour and
  minute \<ge> onMinute) or (onHour < hour < offHour) or (hour = offHour and
  minute < offMinute).
\<close>

definition spec_lamp_rule :: "TIME \<Rightarrow> LAMP \<Rightarrow> bool" where
  "spec_lamp_rule now l =
     ((hours now = hours (onH l) \<and> minutes now \<ge> minutes (onH l))
      \<or> (hours (onH l) < hours now \<and> hours now < hours (offH l))
      \<or> (hours now = hours (offH l) \<and> minutes now < minutes (offH l)))"

section \<open>Pump evaluator: \<open>buse_task\<close>\<close>

record BUSE =
  buse_tOn :: u8
  startH :: TIME
  stopH :: TIME
  buse_active :: u8

text \<open>
  The task reads the global \<open>buseFlag\<close> and owns a local \<open>buseflag\<close> (lower-case f);
  both are kept, as the source has both. \<open>busePin\<close> is the level last written
  (0 energises the pump, 1 releases it).
\<close>

record buse_state =
  buseFlag :: u8
  buseflag :: u8
  busePin :: nat

text \<open>
  What one iteration does to the outside, in order: pin writes and sleeps. The argument
  of \<open>k_sleep\<close> is an \<open>int\<close>, 16 bits wide on the target, so the product
  \<open>buse.tOn * 1000\<close> is a 16-bit word.
\<close>

datatype out_event = Write nat | Sleep "16 word"

definition buse_task :: "TIME \<Rightarrow> BUSE \<Rightarrow> buse_state \<Rightarrow> buse_state \<times> out_event list" where
  "buse_task now b s =
     (if hours now \<ge> hours (startH b) \<and> hours now \<le> hours (stopH b)
         \<and> buse_active b \<noteq> 0 \<and> buseFlag s = 0 then
        (if minutes now = minutes (startH b) then
           (s\<lparr>busePin := 1, buseFlag := 1\<rparr>,
            [Write 0, Sleep (ucast (buse_tOn b) * 1000), Write 1, Sleep 10000])
         else (s, [Sleep 10000]))
      else
        ((if unat (minutes now) \<ge> unat (minutes (startH b)) + unat (buse_tOn b) div 60
          then s\<lparr>busePin := 1, buseflag := 0\<rparr> else s\<lparr>busePin := 1\<rparr>),
         [Write 1, Sleep 10000]))"

text \<open>The task over a sequence of evaluation times: the events of each iteration.\<close>

fun buse_run :: "BUSE \<Rightarrow> TIME list \<Rightarrow> buse_state \<Rightarrow> buse_state \<times> out_event list list" where
  "buse_run b [] s = (s, [])"
| "buse_run b (now # ts) s =
     (let (s1, ev) = buse_task now b s; (s2, evs) = buse_run b ts s1 in (s2, ev # evs))"

section \<open>Input classifier: \<open>input_task\<close>\<close>

text \<open>\<open>enum btn_press\<close>: the values the single slot \<open>press\<close> takes.\<close>

datatype btn_press = p_none | p_bt1_s | p_bt1_l | p_bt1_r | p_bt2_s | p_bt2_l | p_bt2_r

text \<open>\<open>struct BUTTON\<close>: two 4-bit fields and the 8-bit time counter.\<close>

record BUTTON =
  val :: "4 word"
  mode :: "4 word"
  time :: u8

text \<open>
  The code for one button in one poll. The task has this block twice, for \<open>bt1\<close> and for
  \<open>bt2\<close>, differing only in the pin read and in the three values written to \<open>press\<close>;
  these are the parameters \<open>level\<close> (the result of \<open>digitalRead\<close>), \<open>ps\<close>, \<open>pl\<close> and
  \<open>pr\<close>. The result is the button and the value written to \<open>press\<close> in this poll, if
  any. The writes to the indicator on pin 13 are left out.
\<close>

definition button_poll ::
  "btn_press \<Rightarrow> btn_press \<Rightarrow> btn_press \<Rightarrow> nat \<Rightarrow> BUTTON \<Rightarrow> BUTTON \<times> btn_press option" where
  "button_poll ps pl pr level b =
     (if val b = 0 then
        (if level = 0 then (b\<lparr>val := 1\<rparr>, None) else (b, None))
      else if level = 1 then
        (b\<lparr>mode := 0, time := 0, val := 0\<rparr>,
         (if mode b = 0 then Some ps else if mode b = 1 then Some pl else None))
      else if mode b = 0 then
        ((if time b = 8 then b\<lparr>mode := 1\<rparr> else b)\<lparr>time := time b + 1\<rparr>, None)
      else if mode b = 1 then
        ((if time b = 20 then b\<lparr>mode := 3\<rparr> else b)\<lparr>time := time b + 1\<rparr>, None)
      else if time b \<ge> 5 then (b\<lparr>time := 0 + 1\<rparr>, Some pr)
      else (b\<lparr>time := time b + 1\<rparr>, None))"

text \<open>One iteration of \<open>input_task\<close>: button 1, then button 2; a later write wins.\<close>

definition input_task ::
  "nat \<times> nat \<Rightarrow> BUTTON \<times> BUTTON \<times> btn_press \<Rightarrow> BUTTON \<times> BUTTON \<times> btn_press" where
  "input_task levels st =
     (case (levels, st) of ((l1, l2), (bt1, bt2, press0)) \<Rightarrow>
        (let (bt1', e1) = button_poll p_bt1_s p_bt1_l p_bt1_r l1 bt1;
             press1 = (case e1 of Some e \<Rightarrow> e | None \<Rightarrow> press0);
             (bt2', e2) = button_poll p_bt2_s p_bt2_l p_bt2_r l2 bt2;
             press2 = (case e2 of Some e \<Rightarrow> e | None \<Rightarrow> press1)
         in (bt1', bt2', press2)))"

text \<open>One button over a sequence of pin levels: what each poll writes.\<close>

fun button_trace ::
  "btn_press \<Rightarrow> btn_press \<Rightarrow> btn_press \<Rightarrow> nat list \<Rightarrow> BUTTON \<Rightarrow> btn_press option list" where
  "button_trace ps pl pr [] b = []"
| "button_trace ps pl pr (level # ls) b =
     snd (button_poll ps pl pr level b) # button_trace ps pl pr ls (fst (button_poll ps pl pr level b))"

text \<open>The initialiser \<open>{ 0, 0, 0 }\<close> of both buttons.\<close>

definition button_idle :: BUTTON where
  "button_idle = \<lparr>val = 0, mode = 0, time = 0\<rparr>"

text \<open>The pin is low (0) for \<open>n\<close> polls, then high (1) for one poll.\<close>

definition held_then_released :: "nat \<Rightarrow> nat list" where
  "held_then_released n = replicate n 0 @ [1]"

section \<open>Menu state and the time-editing sub-flow: \<open>hourSelection\<close>\<close>

text \<open>The globals the menu functions share. \<open>enum menus\<close> is stored in the byte \<open>menu\<close>.\<close>

record ui =
  menu :: u8
  subMenu :: u8
  HorM :: u8
  choosed :: u8
  timeSelected :: TIME
  nbr_setup :: u8
  setupVal :: u8
  press :: btn_press

definition m_off :: u8 where "m_off = 0"
definition m_setup :: u8 where "m_setup = 1"
definition m_lamp :: u8 where "m_lamp = 2"
definition m_buse :: u8 where "m_buse = 3"
definition m_brume :: u8 where "m_brume = 4"
definition m_bulle :: u8 where "m_bulle = 5"
definition m_time :: u8 where "m_time = 6"
definition m_save :: u8 where "m_save = 7"
definition m_exit :: u8 where "m_exit = 8"

text \<open>The calls that only draw on the display are left out of the menu functions.\<close>

definition hourSelection :: "ui \<Rightarrow> ui" where
  "hourSelection s =
     (if HorM s = 0 then
        (if press s = p_bt2_s \<or> press s = p_bt2_r then
           s\<lparr>timeSelected :=
                (if hours (timeSelected s) = 23 then (timeSelected s)\<lparr>hours := 0\<rparr>
                 else (timeSelected s)\<lparr>hours := hours (timeSelected s) + 1\<rparr>),
             press := p_none\<rparr>
         else if press s = p_bt1_s then s\<lparr>press := p_none, HorM := HorM s + 1\<rparr>
         else s)
      else
        (if press s = p_bt2_s then
           s\<lparr>timeSelected :=
                (if minutes (timeSelected s) + 1 > 59 then (timeSelected s)\<lparr>minutes := 0\<rparr>
                 else (timeSelected s)\<lparr>minutes := minutes (timeSelected s) + 1\<rparr>),
             press := p_none\<rparr>
         else if press s = p_bt2_r then
           s\<lparr>timeSelected :=
                (if minutes (timeSelected s) + 5 > 59
                 then (timeSelected s)\<lparr>minutes := minutes (timeSelected s) + 5 - 60\<rparr>
                 else (timeSelected s)\<lparr>minutes := minutes (timeSelected s) + 5\<rparr>),
             press := p_none\<rparr>
         else s))"

section \<open>Multi-event devices: \<open>extra_menu\<close>\<close>

text \<open>\<open>struct EXTRAS\<close> (brume and bulles). The array \<open>times[10]\<close> is a list of length 10.\<close>

record EXTRAS =
  nbr :: u8
  extra_tOn :: u8
  times :: "TIME list"
  extra_active :: u8

text \<open>
  Reading and writing \<open>thing->times[i]\<close>. An index outside the array is undefined
  behaviour in C; the model has no result there.
\<close>

definition times_read :: "EXTRAS \<Rightarrow> u8 \<Rightarrow> TIME option" where
  "times_read thing i = (if unat i < length (times thing) then Some (times thing ! unat i) else None)"

definition times_write :: "EXTRAS \<Rightarrow> u8 \<Rightarrow> TIME \<Rightarrow> EXTRAS option" where
  "times_write thing i t =
     (if unat i < length (times thing) then Some (thing\<lparr>times := (times thing)[unat i := t]\<rparr>) else None)"

text \<open>The step every value selector shares: back to 0 at \<open>nbr_setup\<close>, else one up.\<close>

definition next_setupVal :: "ui \<Rightarrow> ui" where
  "next_setupVal s = (if setupVal s = nbr_setup s then s\<lparr>setupVal := 0\<rparr> else s\<lparr>setupVal := setupVal s + 1\<rparr>)"

text \<open>The assignments that close a flow: back to the setup menu, cursor reset.\<close>

definition back_to_setup :: "ui \<Rightarrow> ui" where
  "back_to_setup s = s\<lparr>menu := m_setup, subMenu := 0, choosed := 0, setupVal := 0\<rparr>"

text \<open>The \<open>if\<close> that precedes the \<open>switch\<close>: with no trigger stored, sub-state 0 is left at once.\<close>

definition extra_entry :: "EXTRAS \<Rightarrow> ui \<Rightarrow> ui" where
  "extra_entry thing s =
     (if nbr thing = 0 \<and> subMenu s = 0
      then s\<lparr>subMenu := 3, nbr_setup := 59, setupVal := extra_tOn thing\<rparr> else s)"

text \<open>The cases of the \<open>switch (subMenu)\<close>, one definition each.\<close>

definition extra_case0 :: "EXTRAS \<Rightarrow> ui \<Rightarrow> (EXTRAS \<times> ui) option" where
  "extra_case0 thing s0 =
     (let s = s0\<lparr>nbr_setup := 1\<rparr> in
      if press s = p_bt2_s then Some (thing, (next_setupVal s)\<lparr>press := p_none\<rparr>)
      else if press s = p_bt1_s then Some (thing, s\<lparr>press := p_none, subMenu := subMenu s + (setupVal s + 1)\<rparr>)
      else Some (thing, s))"

definition extra_case1 :: "EXTRAS \<Rightarrow> ui \<Rightarrow> (EXTRAS \<times> ui) option" where
  "extra_case1 thing s0 =
     (let s1 = s0\<lparr>nbr_setup := nbr thing\<rparr>;
          s2 = (if press s1 = p_bt2_s then (next_setupVal s1)\<lparr>press := p_none\<rparr> else s1)
      in if press s2 = p_bt1_s then
           (if setupVal s2 = nbr_setup s2 then
              Some (thing, s2\<lparr>press := p_none, subMenu := subMenu s2 + 2, setupVal := extra_tOn thing\<rparr>)
            else
              (case times_read thing (setupVal s2) of
                 None \<Rightarrow> None
               | Some t \<Rightarrow>
                   Some (thing, s2\<lparr>press := p_none, choosed := setupVal s2,
                                  subMenu := subMenu s2 + 3, timeSelected := t\<rparr>)))
         else Some (thing, s2))"

definition extra_case2 :: "EXTRAS \<Rightarrow> ui \<Rightarrow> (EXTRAS \<times> ui) option" where
  "extra_case2 thing s =
     (if nbr thing < 10 then
        Some (thing\<lparr>nbr := nbr thing + 1\<rparr>,
              s\<lparr>choosed := nbr thing, subMenu := subMenu s + 3, timeSelected := \<lparr>hours = 8, minutes = 0\<rparr>\<rparr>)
      else Some (thing, s\<lparr>subMenu := subMenu s + 4\<rparr>))"

definition extra_case3 :: "EXTRAS \<Rightarrow> ui \<Rightarrow> (EXTRAS \<times> ui) option" where
  "extra_case3 thing s =
     (if press s = p_bt2_s \<or> press s = p_bt2_r then Some (thing, (next_setupVal s)\<lparr>press := p_none\<rparr>)
      else if press s = p_bt2_l then Some (thing, s\<lparr>press := p_none, setupVal := 0\<rparr>)
      else if press s = p_bt1_s then
        Some (thing\<lparr>extra_tOn := setupVal s\<rparr>, s\<lparr>press := p_none, subMenu := subMenu s + 1\<rparr>)
      else if press s = p_bt1_l then Some (thing, s\<lparr>press := p_none, setupVal := 0, menu := m_setup\<rparr>)
      else Some (thing, s))"

definition extra_case4 :: "EXTRAS \<Rightarrow> ui \<Rightarrow> (EXTRAS \<times> ui) option" where
  "extra_case4 thing s =
     (if press s = p_bt2_s then
        Some (thing\<lparr>extra_active := (if extra_active thing \<noteq> 0 then 0 else 1)\<rparr>, s\<lparr>press := p_none\<rparr>)
      else if press s = p_bt1_s then
        (case times_read thing (choosed s) of
           None \<Rightarrow> None
         | Some t \<Rightarrow>
             (let s1 = s\<lparr>press := p_none, timeSelected := t\<rparr> in
              if extra_active thing \<noteq> 0 \<and> nbr thing = 0 then Some (thing, s1\<lparr>subMenu := 2\<rparr>)
              else Some (thing, back_to_setup s1)))
      else if press s = p_bt1_l then Some (thing, s\<lparr>press := p_none, menu := m_setup\<rparr>)
      else Some (thing, s))"

definition extra_case5 :: "EXTRAS \<Rightarrow> ui \<Rightarrow> (EXTRAS \<times> ui) option" where
  "extra_case5 thing s0 =
     (let s = hourSelection s0 in
      if press s = p_bt1_s then
        (case times_write thing (choosed s) (timeSelected s) of
           None \<Rightarrow> None
         | Some thing' \<Rightarrow> Some (thing', back_to_setup (s\<lparr>press := p_none, HorM := 0\<rparr>)))
      else if press s = p_bt1_l then
        Some (thing, (if HorM s \<noteq> 0 then s\<lparr>press := p_none, HorM := 0\<rparr>
                      else s\<lparr>press := p_none, subMenu := subMenu s - 1\<rparr>))
      else Some (thing, s))"

definition extra_case6 :: "EXTRAS \<Rightarrow> ui \<Rightarrow> (EXTRAS \<times> ui) option" where
  "extra_case6 thing s =
     (if press s = p_bt1_s \<or> press s = p_bt2_s
      then Some (thing, back_to_setup (s\<lparr>press := p_none, HorM := 0\<rparr>))
      else Some (thing, s))"

text \<open>One call of \<open>extra_menu(thing)\<close>; a \<open>subMenu\<close> above 6 matches no case.\<close>

definition extra_menu :: "EXTRAS \<Rightarrow> ui \<Rightarrow> (EXTRAS \<times> ui) option" where
  "extra_menu thing s0 =
     (let s = extra_entry thing s0 in
      if subMenu s = 0 then extra_case0 thing s
      else if subMenu s = 1 then extra_case1 thing s
      else if subMenu s = 2 then extra_case2 thing s
      else if subMenu s = 3 then extra_case3 thing s
      else if subMenu s = 4 then extra_case4 thing s
      else if subMenu s = 5 then extra_case5 thing s
      else if subMenu s = 6 then extra_case6 thing s
      else Some (thing, s))"

section \<open>Configuration and its persistence: \<open>saveToEEPROM\<close>, \<open>restoreFromEEPROM\<close>, \<open>setup\<close>\<close>

text \<open>The device globals: \<open>lamps[3]\<close>, \<open>buse\<close>, \<open>brume\<close> and \<open>bulles\<close>.\<close>

record config =
  lamps :: "LAMP list"
  buse :: BUSE
  brume :: EXTRAS
  bulles :: EXTRAS

text \<open>
  The EEPROM is a byte at every address. Every field of the three structs is one byte,
  so a struct has no padding and \<open>EEPROM.put\<close> writes its fields in declaration order
  from the given address on; \<open>EEPROM.get\<close> reads them back in the same order.
\<close>

type_synonym eeprom = "nat \<Rightarrow> u8"

fun write_bytes :: "eeprom \<Rightarrow> nat \<Rightarrow> u8 list \<Rightarrow> eeprom" where
  "write_bytes e a [] = e"
| "write_bytes e a (b # bs) = write_bytes (e(a := b)) (a + 1) bs"

definition sizeof_LAMP :: nat where "sizeof_LAMP = 5"
definition sizeof_BUSE :: nat where "sizeof_BUSE = 6"
definition sizeof_EXTRAS :: nat where "sizeof_EXTRAS = 23"

definition TIME_bytes :: "TIME \<Rightarrow> u8 list" where
  "TIME_bytes t = [hours t, minutes t]"

definition LAMP_bytes :: "LAMP \<Rightarrow> u8 list" where
  "LAMP_bytes l = TIME_bytes (onH l) @ TIME_bytes (offH l) @ [lamp_active l]"

definition BUSE_bytes :: "BUSE \<Rightarrow> u8 list" where
  "BUSE_bytes b = [buse_tOn b] @ TIME_bytes (startH b) @ TIME_bytes (stopH b) @ [buse_active b]"

definition EXTRAS_bytes :: "EXTRAS \<Rightarrow> u8 list" where
  "EXTRAS_bytes x = [nbr x, extra_tOn x] @ concat (map TIME_bytes (times x)) @ [extra_active x]"

definition get_TIME :: "eeprom \<Rightarrow> nat \<Rightarrow> TIME" where
  "get_TIME e a = \<lparr>hours = e a, minutes = e (a + 1)\<rparr>"

definition get_LAMP :: "eeprom \<Rightarrow> nat \<Rightarrow> LAMP" where
  "get_LAMP e a = \<lparr>onH = get_TIME e a, offH = get_TIME e (a + 2), lamp_active = e (a + 4)\<rparr>"

definition get_BUSE :: "eeprom \<Rightarrow> nat \<Rightarrow> BUSE" where
  "get_BUSE e a =
     \<lparr>buse_tOn = e a, startH = get_TIME e (a + 1), stopH = get_TIME e (a + 3), buse_active = e (a + 5)\<rparr>"

definition get_EXTRAS :: "eeprom \<Rightarrow> nat \<Rightarrow> EXTRAS" where
  "get_EXTRAS e a =
     \<lparr>nbr = e a, extra_tOn = e (a + 1),
      times = map (\<lambda>i. get_TIME e (a + 2 + 2 * i)) [0..<10],
      extra_active = e (a + 22)\<rparr>"

text \<open>The checks that follow each read in \<open>restoreFromEEPROM\<close>.\<close>

definition check_LAMP :: "LAMP \<Rightarrow> LAMP" where
  "check_LAMP l = (if lamp_active l > 1 then l\<lparr>lamp_active := 0\<rparr> else l)"

definition check_BUSE :: "BUSE \<Rightarrow> BUSE" where
  "check_BUSE b =
     (if buse_active b > 1 \<or> buse_tOn b > 200 then b\<lparr>buse_active := 0, buse_tOn := 0\<rparr> else b)"

definition check_EXTRAS :: "EXTRAS \<Rightarrow> EXTRAS" where
  "check_EXTRAS x =
     (if extra_active x > 1 \<or> nbr x > 10 \<or> extra_tOn x > 200
      then x\<lparr>extra_active := 0, nbr := 0, extra_tOn := 0\<rparr> else x)"

text \<open>The lamp loop of \<open>restoreFromEEPROM\<close>: the state is \<open>memAddress\<close> and \<open>lamps\<close>.\<close>

definition restore_lamp :: "eeprom \<Rightarrow> nat \<Rightarrow> nat \<times> LAMP list \<Rightarrow> nat \<times> LAMP list" where
  "restore_lamp e i st =
     (case st of (memAddress, ls) \<Rightarrow> (memAddress + sizeof_LAMP, ls[i := check_LAMP (get_LAMP e memAddress)]))"

definition restoreFromEEPROM :: "eeprom \<Rightarrow> config \<Rightarrow> config" where
  "restoreFromEEPROM e c =
     (let (a1, ls) = fold (restore_lamp e) [0, 1, 2] (1, lamps c);
          b = check_BUSE (get_BUSE e a1);
          a2 = a1 + sizeof_BUSE;
          br = check_EXTRAS (get_EXTRAS e a2);
          a3 = a2 + sizeof_EXTRAS;
          bu = check_EXTRAS (get_EXTRAS e a3)
      in \<lparr>lamps = ls, buse = b, brume = br, bulles = bu\<rparr>)"

text \<open>The lamp loop of \<open>saveToEEPROM\<close>: the state is \<open>memAddress\<close> and the EEPROM.\<close>

definition save_lamp :: "LAMP list \<Rightarrow> nat \<Rightarrow> nat \<times> eeprom \<Rightarrow> nat \<times> eeprom" where
  "save_lamp ls i st =
     (case st of (memAddress, e) \<Rightarrow> (memAddress + sizeof_LAMP, write_bytes e memAddress (LAMP_bytes (ls ! i))))"

text \<open>
  \<open>saveToEEPROM\<close>: the marker, three \<open>put\<close> of the lamps, \<open>put\<close> of \<open>buse\<close>, \<open>put\<close> of
  \<open>brume\<close>; the last statement is \<open>EEPROM.get(memAddress, bulles)\<close>, a read into the
  global \<open>bulles\<close>. Then \<open>menu = m_setup\<close>.
\<close>

definition saveToEEPROM :: "eeprom \<times> config \<times> ui \<Rightarrow> eeprom \<times> config \<times> ui" where
  "saveToEEPROM st =
     (case st of (e, c, s) \<Rightarrow>
        (let e0 = e(0 := 2);
             (a1, e1) = fold (save_lamp (lamps c)) [0, 1, 2] (1, e0);
             e2 = write_bytes e1 a1 (BUSE_bytes (buse c));
             a2 = a1 + sizeof_BUSE;
             e3 = write_bytes e2 a2 (EXTRAS_bytes (brume c));
             a3 = a2 + sizeof_EXTRAS
         in (e3, c\<lparr>bulles := get_EXTRAS e3 a3\<rparr>, s\<lparr>menu := m_setup\<rparr>)))"

text \<open>
  The globals as the C start-up code leaves them (all zero), and after the assignments
  of \<open>setup\<close> that seed lamp 1 and the pump.
\<close>

definition zero_TIME :: TIME where
  "zero_TIME = \<lparr>hours = 0, minutes = 0\<rparr>"

definition zero_LAMP :: LAMP where
  "zero_LAMP = \<lparr>onH = zero_TIME, offH = zero_TIME, lamp_active = 0\<rparr>"

definition zero_EXTRAS :: EXTRAS where
  "zero_EXTRAS = \<lparr>nbr = 0, extra_tOn = 0, times = replicate 10 zero_TIME, extra_active = 0\<rparr>"

definition zero_config :: config where
  "zero_config =
     \<lparr>lamps = [zero_LAMP, zero_LAMP, zero_LAMP],
      buse = \<lparr>buse_tOn = 0, startH = zero_TIME, stopH = zero_TIME, buse_active = 0\<rparr>,
      brume = zero_EXTRAS, bulles = zero_EXTRAS\<rparr>"

definition zero_ui :: ui where
  "zero_ui = \<lparr>menu = 0, subMenu = 0, HorM = 0, choosed = 0, timeSelected = zero_TIME,
              nbr_setup = 3, setupVal = 0, press = p_none\<rparr>"

definition seed_config :: "config \<Rightarrow> config" where
  "seed_config c =
     c\<lparr>lamps := (lamps c)[1 := (lamps c ! 1)\<lparr>onH := \<lparr>hours = 8, minutes = 0\<rparr>, offH := \<lparr>hours = 22, minutes = 0\<rparr>\<rparr>],
       buse := (buse c)\<lparr>buse_tOn := 5, startH := \<lparr>hours = 8, minutes = 0\<rparr>, stopH := \<lparr>hours = 21, minutes = 0\<rparr>\<rparr>\<rparr>"

text \<open>
  The function \<open>setup\<close> of the sketch (named \<open>boot_setup\<close> here, \<open>setup\<close> being an
  Isabelle keyword), as far as the configuration and the menu go. It does not return when the
  display cannot be started or the RTC is not running (both end in an empty endless
  loop): the result is \<open>None\<close>. Otherwise it is the configuration and the menu state
  with which the tasks start.
\<close>

definition boot_setup :: "bool \<Rightarrow> bool \<Rightarrow> eeprom \<Rightarrow> (config \<times> ui) option" where
  "boot_setup display_ok rtc_running e =
     (if \<not> display_ok then None
      else if \<not> rtc_running then None
      else
        (let c = seed_config zero_config in
         if e 0 \<noteq> 2 then Some (c, zero_ui\<lparr>menu := m_setup\<rparr>)
         else Some (restoreFromEEPROM e c, zero_ui\<lparr>menu := m_off\<rparr>)))"

section \<open>Auxiliary definitions for the statements\<close>

text \<open>A whole run of a multi-event menu: before each call, the input task may have written a press.\<close>

fun extra_run :: "btn_press option list \<Rightarrow> EXTRAS \<times> ui \<Rightarrow> (EXTRAS \<times> ui) option" where
  "extra_run [] st = Some st"
| "extra_run (p # ps) st =
     (case extra_menu (fst st) (case p of None \<Rightarrow> snd st | Some q \<Rightarrow> (snd st)\<lparr>press := q\<rparr>) of
        None \<Rightarrow> None
      | Some st' \<Rightarrow> extra_run ps st')"

text \<open>The distance between two minute values.\<close>

definition minute_diff :: "u8 \<Rightarrow> u8 \<Rightarrow> nat" where
  "minute_diff a b = (if unat a \<le> unat b then unat b - unat a else unat a - unat b)"

text \<open>
  A button that has read the pin low in \<open>n\<close> consecutive polls, starting from idle; the
  value written to \<open>press\<close> by the \<open>k\<close>-th such poll; the value written by the release
  that follows \<open>n\<close> such polls.
\<close>

definition held_state :: "nat \<Rightarrow> BUTTON" where
  "held_state n =
     (if n = 0 then button_idle
      else if n \<le> 9 then \<lparr>val = 1, mode = 0, time = of_nat (n - 1)\<rparr>
      else if n \<le> 21 then \<lparr>val = 1, mode = 1, time = of_nat (n - 1)\<rparr>
      else if n = 22 then \<lparr>val = 1, mode = 3, time = 21\<rparr>
      else \<lparr>val = 1, mode = 3, time = of_nat ((n - 23) mod 5 + 1)\<rparr>)"

definition held_event :: "btn_press \<Rightarrow> nat \<Rightarrow> btn_press option" where
  "held_event pr k = (if 23 \<le> k \<and> (k - 23) mod 5 = 0 then Some pr else None)"

definition release_event :: "btn_press \<Rightarrow> btn_press \<Rightarrow> nat \<Rightarrow> btn_press option" where
  "release_event ps pl n = (if n \<le> 9 then Some ps else if n \<le> 21 then Some pl else None)"

text \<open>Two EEPROM contents that agree at every address outside \<open>lo, \<dots>, lo + n - 1\<close>.\<close>

definition agree_outside :: "eeprom \<Rightarrow> eeprom \<Rightarrow> nat \<Rightarrow> nat \<Rightarrow> bool" where
  "agree_outside e e' lo n = (\<forall>a. a < lo \<or> lo + n \<le> a \<longrightarrow> e' a = e a)"

text \<open>Concrete inputs.\<close>

definition clock_1210 :: clock where
  "clock_1210 = \<lparr>globalTime = \<lparr>hours = 12, minutes = 10\<rparr>, sec = 0\<rparr>"

definition clock_235959 :: clock where
  "clock_235959 = \<lparr>globalTime = \<lparr>hours = 23, minutes = 59\<rparr>, sec = 59\<rparr>"

definition lamp_0830_2200 :: LAMP where
  "lamp_0830_2200 =
     \<lparr>onH = \<lparr>hours = 8, minutes = 30\<rparr>, offH = \<lparr>hours = 22, minutes = 0\<rparr>, lamp_active = 1\<rparr>"

definition lamps_all_off :: lamp_out where
  "lamps_all_off = \<lparr>lampPin = [1, 1, 1], lampNbr = 0, ledFond = 0\<rparr>"

definition buse_0800_2100 :: BUSE where
  "buse_0800_2100 =
     \<lparr>buse_tOn = 5, startH = \<lparr>hours = 8, minutes = 0\<rparr>, stopH = \<lparr>hours = 21, minutes = 0\<rparr>,
      buse_active = 1\<rparr>"

definition buse_idle :: buse_state where
  "buse_idle = \<lparr>buseFlag = 0, buseflag = 0, busePin = 1\<rparr>"

definition extras_full :: EXTRAS where
  "extras_full =
     \<lparr>nbr = 10, extra_tOn = 5, times = replicate 10 \<lparr>hours = 8, minutes = 0\<rparr>, extra_active = 1\<rparr>"

definition ui_add_chosen :: ui where
  "ui_add_chosen = zero_ui\<lparr>menu := m_brume, nbr_setup := 1, setupVal := 1, press := p_bt1_s\<rparr>"

definition ui_entered :: ui where
  "ui_entered = zero_ui\<lparr>menu := m_brume, nbr_setup := 6\<rparr>"

definition eeprom_erased :: eeprom where
  "eeprom_erased = (\<lambda>a. 255)"

definition eeprom_sevens :: eeprom where
  "eeprom_sevens = (\<lambda>a. 7)"

definition eeprom_pump_flag_7 :: eeprom where
  "eeprom_pump_flag_7 = write_bytes ((\<lambda>a. 0)(0 := 2)) 16 [5, 8, 0, 21, 0, 7]"

text \<open>
  An EEPROM that holds the marker 2, three lamp records, a pump record and two
  multi-event records, all in range, and 255 above address 67.
\<close>

definition eeprom_configured :: eeprom where
  "eeprom_configured =
     (\<lambda>a. if a < 68 then
        ([2] @ [7, 30, 19, 45, 1] @ [8, 0, 22, 0, 1] @ [21, 15, 23, 50, 0]
         @ [12, 9, 5, 20, 40, 1]
         @ [3, 10, 6, 5, 9, 10, 12, 15, 13, 25, 14, 35, 15, 45, 16, 55, 17, 6, 18, 16, 1, 2, 1]
         @ [2, 25, 10, 1, 11, 2, 20, 3, 21, 4, 22, 7, 23, 8, 1, 11, 2, 12, 3, 13, 4, 14, 0]) ! a
      else 255)"

definition bulles_one_trigger :: EXTRAS where
  "bulles_one_trigger =
     \<lparr>nbr = 1, extra_tOn = 5, times = \<lparr>hours = 9, minutes = 30\<rparr> # replicate 9 zero_TIME,
      extra_active = 1\<rparr>"

definition config_with_bulles :: config where
  "config_with_bulles = (seed_config zero_config)\<lparr>bulles := bulles_one_trigger\<rparr>"

text \<open>The minute of the day of a time.\<close>

definition minute_of_day :: "TIME \<Rightarrow> nat" where
  "minute_of_day t = unat (hours t) * 60 + unat (minutes t)"

section \<open>Word arithmetic used below\<close>

lemma u8_succ: "(x::u8) \<le> 59 \<Longrightarrow> unat (x + 1) = unat x + 1"
  by (simp add: word_le_nat_alt unat_word_ariths)

lemma u8_plus5: "(x::u8) \<le> 59 \<Longrightarrow> unat (x + 5) = unat x + 5"
  by (simp add: word_le_nat_alt unat_word_ariths)

lemma u8_plus5_minus60:
  assumes le: "(x::u8) \<le> 59" and gt: "59 < x + 5"
  shows "unat (x + 5 - 60) = unat x + 5 - 60"
proof -
  have u: "unat (x + 5) = unat x + 5" using le by (rule u8_plus5)
  from gt have "59 < unat (x + 5)" by (simp add: word_less_nat_alt)
  then have "(60::u8) \<le> x + 5" by (simp add: word_le_nat_alt)
  then have "unat ((x + 5) - 60) = unat (x + 5) - unat (60::u8)" by (rule unat_sub)
  with u show ?thesis by simp
qed

lemma u8_le_nat:
  "((x::u8) \<le> 59) = (unat x \<le> 59)" "((x::u8) \<le> 23) = (unat x \<le> 23)"
  "((59::u8) < x) = (59 < unat x)" "(x = 23) = (unat x = 23)" "(x = 59) = (unat x = 59)"
  by (simp_all add: word_le_nat_alt word_less_nat_alt word_unat_eq_iff)

section \<open>Lamp evaluator\<close>

text \<open>What the loop body does for an enabled lamp, as one case distinction.\<close>

lemma lamp_body_active:
  "lamp_active l \<noteq> 0 \<Longrightarrow>
   lamp_body now i l out =
     (if (hours now = hours (onH l) \<and> minutes now \<le> minutes (onH l))
         \<or> (hours (onH l) < hours now \<and> hours now < hours (offH l))
         \<or> (hours now = hours (offH l) \<and> minutes now < minutes (offH l)) then lamp_on i out
      else if hours now = hours (offH l) then lamp_off i out
      else out)"
  by (auto simp: lamp_body_def)

text \<open>
  C1. The claim: for an enabled lamp the output is on exactly when the boundary rule of
  the specification holds, and off at every other time. The task's header comment says
  the same ("enabled from start to stop time"). The source compares
  \<open>onH.minutes >= globalTime.minutes\<close>, the operands reversed, and writes nothing when
  no branch applies. With lamp 0 set to 08:30--22:00 and every output off: at 08:10 the
  rule does not hold and the task switches the lamp on (level 0); at 08:45 the rule
  holds and the task leaves the lamp off (level 1).
\<close>

theorem lamp_task_reversed_on_minute:
  "\<not> spec_lamp_rule \<lparr>hours = 8, minutes = 10\<rparr> lamp_0830_2200
   \<and> lampPin (lamp_task \<lparr>hours = 8, minutes = 10\<rparr> [lamp_0830_2200, zero_LAMP, zero_LAMP] lamps_all_off) ! 0 = 0
   \<and> spec_lamp_rule \<lparr>hours = 8, minutes = 45\<rparr> lamp_0830_2200
   \<and> lampPin (lamp_task \<lparr>hours = 8, minutes = 45\<rparr> [lamp_0830_2200, zero_LAMP, zero_LAMP] lamps_all_off) ! 0 = 1"
  by (simp add: spec_lamp_rule_def lamp_0830_2200_def lamp_task_def lamp_body_def lamp_on_def
      lamp_off_def lamps_all_off_def zero_LAMP_def zero_TIME_def)

section \<open>Persistence\<close>

lemma length3: "length xs = 3 \<Longrightarrow> \<exists>a b c. xs = [a, b, c]"
  by (auto simp: numeral_3_eq_3 length_Suc_conv)

lemma length10:
  assumes "length xs = 10"
  shows "\<exists>t0 t1 t2 t3 t4 t5 t6 t7 t8 t9. xs = [t0, t1, t2, t3, t4, t5, t6, t7, t8, t9]"
proof -
  from assms have "length xs = Suc (Suc (Suc (Suc (Suc (Suc (Suc (Suc (Suc (Suc 0)))))))))" by simp
  then show ?thesis by (auto simp: length_Suc_conv)
qed

lemma replicate_10: "replicate 10 x = [x, x, x, x, x, x, x, x, x, x]"
  by (simp add: eval_nat_numeral)

lemma replicate_9: "replicate 9 x = [x, x, x, x, x, x, x, x, x]"
  by (simp add: eval_nat_numeral)

lemma upt_0_10: "[0..<10] = [0, 1, 2, 3, 4, 5, 6, 7, 8, 9::nat]"
  by (simp add: upt_rec)

lemma get_EXTRAS_explicit:
  "get_EXTRAS e a =
     \<lparr>nbr = e a, extra_tOn = e (a + 1),
      times = [get_TIME e (a + 2), get_TIME e (a + 4), get_TIME e (a + 6), get_TIME e (a + 8),
               get_TIME e (a + 10), get_TIME e (a + 12), get_TIME e (a + 14), get_TIME e (a + 16),
               get_TIME e (a + 18), get_TIME e (a + 20)],
      extra_active = e (a + 22)\<rparr>"
  unfolding get_EXTRAS_def upt_0_10 by (simp add: numeral_eq_Suc)

text \<open>The addresses \<open>restoreFromEEPROM\<close> reads: 1, 6, 11 (lamps), 16 (pump), 22 and 45.\<close>

lemma restore_layout:
  assumes "length (lamps c) = 3"
  shows "restoreFromEEPROM e c =
     \<lparr>lamps = [check_LAMP (get_LAMP e 1), check_LAMP (get_LAMP e 6), check_LAMP (get_LAMP e 11)],
      buse = check_BUSE (get_BUSE e 16),
      brume = check_EXTRAS (get_EXTRAS e 22),
      bulles = check_EXTRAS (get_EXTRAS e 45)\<rparr>"
proof -
  from assms obtain l0 l1 l2 where "lamps c = [l0, l1, l2]" using length3 by blast
  then show ?thesis
    by (simp add: restoreFromEEPROM_def restore_lamp_def sizeof_LAMP_def sizeof_BUSE_def sizeof_EXTRAS_def)
qed

lemma seed_lamps_length: "length (lamps (seed_config zero_config)) = 3"
  by (simp add: seed_config_def zero_config_def)

text \<open>A \<open>put\<close> changes no byte below its address, so no record overwrites the marker.\<close>

lemma write_bytes_below: "k < a \<Longrightarrow> write_bytes e a bs k = e k"
  by (induction bs arbitrary: e a) simp_all

lemma save_marker: "fst (saveToEEPROM (e, c, s)) 0 = 2"
  by (simp add: saveToEEPROM_def save_lamp_def sizeof_LAMP_def sizeof_BUSE_def sizeof_EXTRAS_def
      write_bytes_below Let_def)

text \<open>What \<open>saveToEEPROM\<close> leaves in the EEPROM and in the globals.\<close>

lemma save_fields:
  assumes "lamps c = [l0, l1, l2]" "times (brume c) = [t0, t1, t2, t3, t4, t5, t6, t7, t8, t9]"
  shows "fst (saveToEEPROM (e, c, s)) 0 = 2"
    and "get_LAMP (fst (saveToEEPROM (e, c, s))) (Suc 0) = l0"
    and "get_LAMP (fst (saveToEEPROM (e, c, s))) 6 = l1"
    and "get_LAMP (fst (saveToEEPROM (e, c, s))) 11 = l2"
    and "get_BUSE (fst (saveToEEPROM (e, c, s))) 16 = buse c"
    and "get_EXTRAS (fst (saveToEEPROM (e, c, s))) 22 = brume c"
    and "get_EXTRAS (fst (saveToEEPROM (e, c, s))) 45 = get_EXTRAS e 45"
    and "snd (saveToEEPROM (e, c, s)) = (c\<lparr>bulles := get_EXTRAS e 45\<rparr>, s\<lparr>menu := m_setup\<rparr>)"
  using assms
  by (simp_all add: saveToEEPROM_def save_lamp_def sizeof_LAMP_def sizeof_BUSE_def sizeof_EXTRAS_def
      LAMP_bytes_def BUSE_bytes_def EXTRAS_bytes_def TIME_bytes_def get_LAMP_def get_BUSE_def
      get_EXTRAS_explicit get_TIME_def)

text \<open>
  Saving and then restoring gives back the lamps, the pump and brume (each passed through
  its check, which changes nothing on values in range); bulles is not written, and the
  restore reads for it whatever the EEPROM held before.
\<close>

lemma save_then_restore:
  assumes "length (lamps c) = 3" "length (times (brume c)) = 10" "length (lamps c0) = 3"
  shows "restoreFromEEPROM (fst (saveToEEPROM (e, c, s))) c0 =
     \<lparr>lamps = map check_LAMP (lamps c), buse = check_BUSE (buse c), brume = check_EXTRAS (brume c),
      bulles = check_EXTRAS (get_EXTRAS e 45)\<rparr>"
  using length3 [OF assms(1)] length10 [OF assms(2)]
  by (elim exE) (simp add: restore_layout [OF assms(3)] save_fields(2-7))

lemma checks_in_range:
  "lamp_active l \<le> 1 \<Longrightarrow> check_LAMP l = l"
  "buse_active b \<le> 1 \<Longrightarrow> buse_tOn b \<le> 200 \<Longrightarrow> check_BUSE b = b"
  "extra_active x \<le> 1 \<Longrightarrow> nbr x \<le> 10 \<Longrightarrow> extra_tOn x \<le> 200 \<Longrightarrow> check_EXTRAS x = x"
  by (auto simp: check_LAMP_def check_BUSE_def check_EXTRAS_def)

text \<open>
  C2. The claim: a save followed by a load reproduces every field of every device
  record, bulles included. The last statement of \<open>saveToEEPROM\<close>, under the comment
  "Write bulles", calls \<open>EEPROM.get\<close> where the three statements before it call
  \<open>EEPROM.put\<close>. Saving a configuration whose bulles record holds one trigger at 09:30
  onto an erased EEPROM overwrites the record in memory with the erased bytes, and the
  boot that follows loads a disabled, empty bulles record.
\<close>

theorem save_then_boot_loses_bulles:
  "(case saveToEEPROM (eeprom_erased, config_with_bulles, zero_ui) of
      (e, c, s) \<Rightarrow> (bulles c, map_option (\<lambda>r. bulles (fst r)) (boot_setup True True e)))
     = (\<lparr>nbr = 255, extra_tOn = 255, times = replicate 10 \<lparr>hours = 255, minutes = 255\<rparr>,
         extra_active = 255\<rparr>,
        Some \<lparr>nbr = 0, extra_tOn = 0, times = replicate 10 \<lparr>hours = 255, minutes = 255\<rparr>,
              extra_active = 0\<rparr>)
   \<and> bulles config_with_bulles =
       \<lparr>nbr = 1, extra_tOn = 5, times = \<lparr>hours = 9, minutes = 30\<rparr> # replicate 9 \<lparr>hours = 0, minutes = 0\<rparr>,
        extra_active = 1\<rparr>"
  by code_simp

section \<open>Clock keeper\<close>

lemma rtc_reset_minutes:
  "minutes (globalTime (rtc_reset rtc c)) =
     (if 1 < minute_diff (minutes (globalTime c)) rtc then rtc else minutes (globalTime c))"
  unfolding rtc_reset_def minute_diff_def
  by (cases "unat rtc \<le> unat (minutes (globalTime c))")
     (auto simp del: of_nat_unat simp: word_unat_eq_iff)

text \<open>
  C3, as the source has it. After the increment the local minute is compared with the
  RTC minute: when they differ by more than 1 the local minute becomes the RTC minute;
  when they differ by exactly 1, or not at all, it is left as the increment made it. The
  correction touches neither the hour nor the seconds counter.
\<close>

theorem time_task_corrects_large_differences:
  "minutes (globalTime (time_task rtc c)) =
     (if 1 < minute_diff (minutes (globalTime (time_increment c))) rtc then rtc
      else minutes (globalTime (time_increment c)))
   \<and> hours (globalTime (time_task rtc c)) = hours (globalTime (time_increment c))
   \<and> sec (time_task rtc c) = sec (time_increment c)"
  by (simp add: time_task_def rtc_reset_minutes) (simp add: rtc_reset_def)

text \<open>
  C3 at 12:10:00: an RTC minute of 40 is taken over, an RTC minute of 11 or of 10 leaves
  the local minute at 10.
\<close>

theorem time_task_corrects_large_differences_witness:
  "minutes (globalTime (time_task 40 clock_1210)) = 40
   \<and> minutes (globalTime (time_task 11 clock_1210)) = 10
   \<and> minutes (globalTime (time_task 10 clock_1210)) = 10"
  using time_task_corrects_large_differences [of 40 clock_1210]
    time_task_corrects_large_differences [of 11 clock_1210]
    time_task_corrects_large_differences [of 10 clock_1210]
  by (simp add: clock_1210_def time_increment_def minute_diff_def)

text \<open>
  C3 as claimed fails on both of its examples. Local minute 10 and RTC minute 11 differ
  by exactly 1, and the tick leaves the local minute at 10, not 11. Local minute 10 and
  RTC minute 40 differ by more than 1, and the tick does not leave the local minute
  alone: it becomes 40.
\<close>

theorem time_task_difference_of_one_counterexample:
  "minute_diff (minutes (globalTime (time_increment clock_1210))) 11 = 1
   \<and> minutes (globalTime (time_task 11 clock_1210)) \<noteq> 11
   \<and> 1 < minute_diff (minutes (globalTime (time_increment clock_1210))) 40
   \<and> minutes (globalTime (time_task 40 clock_1210)) \<noteq> minutes (globalTime (time_increment clock_1210))"
  by (simp add: clock_1210_def time_task_def time_increment_def rtc_reset_def minute_diff_def)

lemma time_increment_in_range:
  "time_in_range (globalTime c) \<Longrightarrow> time_in_range (globalTime (time_increment c))"
  unfolding time_increment_def time_in_range_def
  apply (auto simp: Let_def)
   apply unat_arith+
  done

lemma rtc_reset_in_range:
  "time_in_range (globalTime c) \<Longrightarrow> rtc \<le> 59 \<Longrightarrow> time_in_range (globalTime (rtc_reset rtc c))"
  unfolding rtc_reset_def time_in_range_def
  by (auto simp: Let_def)

lemma rtc_reset_hours: "hours (globalTime (rtc_reset rtc c)) = hours (globalTime c)"
  by (simp add: rtc_reset_def)

text \<open>After a tick the local time is in range exactly when the tick copied no RTC minute above 59.\<close>

lemma time_task_in_range_iff:
  assumes "time_in_range (globalTime c)"
  shows "time_in_range (globalTime (time_task rtc c)) =
     (1 < minute_diff (minutes (globalTime (time_increment c))) rtc \<longrightarrow> rtc \<le> 59)"
  using time_increment_in_range [OF assms]
  by (simp add: time_task_def time_in_range_def rtc_reset_hours rtc_reset_minutes)

lemma time_increment_wrap:
  assumes "time_in_range (globalTime c)" "59 \<le> sec c"
  shows "minute_of_day (globalTime (time_increment c)) = (minute_of_day (globalTime c) + 1) mod 1440"
proof -
  let ?h = "hours (globalTime c)" and ?m = "minutes (globalTime c)"
  from assms(1) have h: "unat ?h \<le> 23" and m: "unat ?m \<le> 59"
    by (simp_all add: time_in_range_def u8_le_nat)
  from assms(1) have hle: "?h \<le> 59" and mle: "?m \<le> 59"
    by (simp_all add: time_in_range_def word_le_nat_alt)
  show ?thesis
  proof (cases "?m = 59")
    case True
    then have m59: "unat ?m = 59" by simp
    show ?thesis
    proof (cases "?h = 23")
      case True
      then have "unat ?h = 23" by simp
      with True \<open>?m = 59\<close> m59 assms(2) show ?thesis
        by (simp add: time_increment_def minute_of_day_def)
    next
      case False
      with h have "unat ?h < 23" by (simp add: u8_le_nat)
      moreover have "unat (?h + 1) = unat ?h + 1" using hle by (rule u8_succ)
      ultimately show ?thesis using False \<open>?m = 59\<close> m59 assms(2)
        by (simp add: time_increment_def minute_of_day_def)
    qed
  next
    case False
    with m have "unat ?m < 59" by (simp add: u8_le_nat)
    moreover have "unat (?m + 1) = unat ?m + 1" using mle by (rule u8_succ)
    ultimately show ?thesis using False h assms(2)
      by (simp add: time_increment_def minute_of_day_def)
  qed
qed

section \<open>Time-editing sub-flow\<close>

lemma hourSelection_in_range:
  "time_in_range (timeSelected s) \<Longrightarrow> time_in_range (timeSelected (hourSelection s))"
  unfolding hourSelection_def time_in_range_def
  apply (auto simp: Let_def)
      apply unat_arith+
  done

lemma hourSelection_hours_wrap:
  assumes "time_in_range (timeSelected s)" "HorM s = 0" "press s = p_bt2_s \<or> press s = p_bt2_r"
  shows "unat (hours (timeSelected (hourSelection s))) = (unat (hours (timeSelected s)) + 1) mod 24"
proof (cases "hours (timeSelected s) = 23")
  case True
  with assms show ?thesis by (auto simp: hourSelection_def)
next
  case False
  from assms(1) have le: "hours (timeSelected s) \<le> 23" by (simp add: time_in_range_def)
  then have "hours (timeSelected s) \<le> 59" by (simp add: word_le_nat_alt)
  then have "unat (hours (timeSelected s) + 1) = unat (hours (timeSelected s)) + 1" by (rule u8_succ)
  moreover from le False have "unat (hours (timeSelected s)) < 23" by (simp add: u8_le_nat)
  ultimately show ?thesis using assms False by (auto simp: hourSelection_def)
qed

lemma hourSelection_minutes_wrap:
  assumes "time_in_range (timeSelected s)" "HorM s \<noteq> 0" "press s = p_bt2_s"
  shows "unat (minutes (timeSelected (hourSelection s))) = (unat (minutes (timeSelected s)) + 1) mod 60"
proof -
  from assms(1) have le: "minutes (timeSelected s) \<le> 59" by (simp add: time_in_range_def)
  then have u: "unat (minutes (timeSelected s) + 1) = unat (minutes (timeSelected s)) + 1" by (rule u8_succ)
  from le have n: "unat (minutes (timeSelected s)) \<le> 59" by (simp add: u8_le_nat)
  show ?thesis
  proof (cases "59 < minutes (timeSelected s) + 1")
    case True
    then have "unat (minutes (timeSelected s)) = 59" using u n by (simp add: u8_le_nat)
    with assms True show ?thesis by (simp add: hourSelection_def)
  next
    case False
    then have "unat (minutes (timeSelected s)) + 1 \<le> 59" using u by (simp add: u8_le_nat)
    with assms False u show ?thesis by (simp add: hourSelection_def)
  qed
qed

lemma hourSelection_minutes_wrap5:
  assumes "time_in_range (timeSelected s)" "HorM s \<noteq> 0" "press s = p_bt2_r"
  shows "unat (minutes (timeSelected (hourSelection s))) = (unat (minutes (timeSelected s)) + 5) mod 60"
proof -
  from assms(1) have le: "minutes (timeSelected s) \<le> 59" by (simp add: time_in_range_def)
  then have u: "unat (minutes (timeSelected s) + 5) = unat (minutes (timeSelected s)) + 5" by (rule u8_plus5)
  from le have n: "unat (minutes (timeSelected s)) \<le> 59" by (simp add: u8_le_nat)
  show ?thesis
  proof (cases "59 < minutes (timeSelected s) + 5")
    case True
    have "unat (minutes (timeSelected s) + 5 - 60) = unat (minutes (timeSelected s)) + 5 - 60"
      by (rule u8_plus5_minus60 [OF le True])
    moreover from True u have "59 < unat (minutes (timeSelected s)) + 5" by (simp add: u8_le_nat)
    moreover have "(unat (minutes (timeSelected s)) + 5) mod 60 = unat (minutes (timeSelected s)) + 5 - 60"
      using n calculation(2) by (simp add: mod_if)
    ultimately show ?thesis using assms True by (simp add: hourSelection_def)
  next
    case False
    then have "unat (minutes (timeSelected s)) + 5 \<le> 59" using u by (simp add: u8_le_nat)
    with assms False u show ?thesis by (simp add: hourSelection_def)
  qed
qed

text \<open>
  C9, as the source has it. From an in-range time, whatever press \<open>hourSelection\<close>
  handles and whichever component has the focus, the edited time is in range again, and
  the local increment of the clock keeper keeps the local time in range. The values are
  reached by wrapping, not by refusing a step: the hour advances modulo 24, the minute
  by 1 or by 5 modulo 60, and the clock by one minute modulo the 1440 minutes of a day.
  The comparison with the RTC wraps nothing: it assigns the RTC minute as it was read.
  So a whole tick keeps the local time in range exactly when the RTC minute is at most
  59 or differs from the incremented local minute by at most 1 (and is then not
  copied); in particular it does whenever the RTC minute is at most 59.
\<close>

theorem time_of_day_stays_in_range:
  "(time_in_range (timeSelected s) \<longrightarrow> time_in_range (timeSelected (hourSelection s)))
   \<and> (time_in_range (globalTime c) \<and> rtc \<le> 59 \<longrightarrow> time_in_range (globalTime (time_task rtc c)))
   \<and> (time_in_range (timeSelected s) \<and> HorM s = 0 \<and> (press s = p_bt2_s \<or> press s = p_bt2_r) \<longrightarrow>
        unat (hours (timeSelected (hourSelection s))) = (unat (hours (timeSelected s)) + 1) mod 24)
   \<and> (time_in_range (timeSelected s) \<and> HorM s \<noteq> 0 \<and> press s = p_bt2_s \<longrightarrow>
        unat (minutes (timeSelected (hourSelection s))) = (unat (minutes (timeSelected s)) + 1) mod 60)
   \<and> (time_in_range (timeSelected s) \<and> HorM s \<noteq> 0 \<and> press s = p_bt2_r \<longrightarrow>
        unat (minutes (timeSelected (hourSelection s))) = (unat (minutes (timeSelected s)) + 5) mod 60)
   \<and> (time_in_range (globalTime c) \<and> 59 \<le> sec c \<longrightarrow>
        minute_of_day (globalTime (time_increment c)) = (minute_of_day (globalTime c) + 1) mod 1440)
   \<and> (time_in_range (globalTime c) \<longrightarrow> time_in_range (globalTime (time_increment c)))
   \<and> (time_in_range (globalTime c) \<longrightarrow>
        time_in_range (globalTime (time_task rtc c)) =
          (1 < minute_diff (minutes (globalTime (time_increment c))) rtc \<longrightarrow> rtc \<le> 59))"
proof (intro conjI impI)
  show "time_in_range (timeSelected (hourSelection s))" if "time_in_range (timeSelected s)"
    using that by (rule hourSelection_in_range)
  show "time_in_range (globalTime (time_task rtc c))" if "time_in_range (globalTime c) \<and> rtc \<le> 59"
    using that by (simp add: time_task_def rtc_reset_in_range time_increment_in_range)
  show "unat (hours (timeSelected (hourSelection s))) = (unat (hours (timeSelected s)) + 1) mod 24"
    if "time_in_range (timeSelected s) \<and> HorM s = 0 \<and> (press s = p_bt2_s \<or> press s = p_bt2_r)"
    using that by (intro hourSelection_hours_wrap) simp_all
  show "unat (minutes (timeSelected (hourSelection s))) = (unat (minutes (timeSelected s)) + 1) mod 60"
    if "time_in_range (timeSelected s) \<and> HorM s \<noteq> 0 \<and> press s = p_bt2_s"
    using that by (intro hourSelection_minutes_wrap) simp_all
  show "unat (minutes (timeSelected (hourSelection s))) = (unat (minutes (timeSelected s)) + 5) mod 60"
    if "time_in_range (timeSelected s) \<and> HorM s \<noteq> 0 \<and> press s = p_bt2_r"
    using that by (intro hourSelection_minutes_wrap5) simp_all
  show "minute_of_day (globalTime (time_increment c)) = (minute_of_day (globalTime c) + 1) mod 1440"
    if "time_in_range (globalTime c) \<and> 59 \<le> sec c"
    using that by (intro time_increment_wrap) simp_all
  show "time_in_range (globalTime (time_increment c))" if "time_in_range (globalTime c)"
    using that by (rule time_increment_in_range)
  show "time_in_range (globalTime (time_task rtc c)) =
      (1 < minute_diff (minutes (globalTime (time_increment c))) rtc \<longrightarrow> rtc \<le> 59)"
    if "time_in_range (globalTime c)"
    using that by (rule time_task_in_range_iff)
qed

text \<open>
  C9 at the ends of the ranges: 23:59 with the hour in focus and a short press on button
  2 becomes 00:59; with the minute in focus it becomes 23:00, and 23:04 on a repeat
  press; the clock at 23:59:59 ticks to 00:00.
\<close>

theorem time_of_day_stays_in_range_witness:
  "timeSelected (hourSelection (zero_ui\<lparr>timeSelected := \<lparr>hours = 23, minutes = 59\<rparr>, press := p_bt2_s\<rparr>))
     = \<lparr>hours = 0, minutes = 59\<rparr>
   \<and> time_in_range \<lparr>hours = 0, minutes = 59\<rparr>
   \<and> timeSelected (hourSelection (zero_ui\<lparr>HorM := 1, timeSelected := \<lparr>hours = 23, minutes = 59\<rparr>, press := p_bt2_s\<rparr>))
     = \<lparr>hours = 23, minutes = 0\<rparr>
   \<and> timeSelected (hourSelection (zero_ui\<lparr>HorM := 1, timeSelected := \<lparr>hours = 23, minutes = 59\<rparr>, press := p_bt2_r\<rparr>))
     = \<lparr>hours = 23, minutes = 4\<rparr>
   \<and> globalTime (time_task 0 clock_235959) = \<lparr>hours = 0, minutes = 0\<rparr>
   \<and> time_in_range (globalTime (time_task 0 clock_235959))
   \<and> minute_of_day (globalTime (time_increment clock_235959)) = 0"
  using time_of_day_stays_in_range
      [of "zero_ui\<lparr>timeSelected := \<lparr>hours = 23, minutes = 59\<rparr>, press := p_bt2_s\<rparr>" clock_235959 0]
    time_of_day_stays_in_range
      [of "zero_ui\<lparr>HorM := 1, timeSelected := \<lparr>hours = 23, minutes = 59\<rparr>, press := p_bt2_s\<rparr>" clock_235959 0]
    time_of_day_stays_in_range
      [of "zero_ui\<lparr>HorM := 1, timeSelected := \<lparr>hours = 23, minutes = 59\<rparr>, press := p_bt2_r\<rparr>" clock_235959 0]
  by (simp add: zero_ui_def clock_235959_def time_in_range_def hourSelection_def time_task_def
      time_increment_def rtc_reset_def minute_of_day_def)

text \<open>
  C9 as claimed fails on the clock keeper. At 12:10:00, an in-range time, a tick that
  reads 165 as the RTC minute copies it: the local minute becomes 165, outside 0 to 59.
\<close>

theorem time_task_copies_rtc_minute_counterexample:
  "time_in_range (globalTime clock_1210)
   \<and> minutes (globalTime (time_task 165 clock_1210)) = 165
   \<and> \<not> time_in_range (globalTime (time_task 165 clock_1210))"
  by (simp add: clock_1210_def time_task_def time_increment_def rtc_reset_def time_in_range_def)

section \<open>Input classifier\<close>

lemma u8_of_nat_eq:
  "k \<le> 22 \<Longrightarrow> ((of_nat k :: u8) = 8) = (k = 8)"
  "k \<le> 22 \<Longrightarrow> ((of_nat k :: u8) = 20) = (k = 20)"
  by (simp_all add: word_unat_eq_iff unat_of_nat)

text \<open>One more poll with the pin low takes \<open>held_state n\<close> to \<open>held_state (n + 1)\<close>.\<close>

lemma poll_held_early:
  assumes "n < 23"
  shows "button_poll ps pl pr 0 (held_state n) = (held_state (Suc n), held_event pr (Suc n))"
proof (cases n)
  case 0
  then show ?thesis by (simp add: button_poll_def held_state_def held_event_def button_idle_def)
next
  case (Suc k)
  with assms have k: "k \<le> 22" by simp
  consider "k < 8" | "k = 8" | "8 < k \<and> k < 20" | "k = 20" | "k = 21" using assms Suc by linarith
  then show ?thesis
  proof cases
    case 1
    then show ?thesis using Suc k
      by (simp add: button_poll_def held_state_def held_event_def u8_of_nat_eq)
  next
    case 2
    then show ?thesis using Suc
      by (simp add: button_poll_def held_state_def held_event_def)
  next
    case 3
    then show ?thesis using Suc k
      by (simp add: button_poll_def held_state_def held_event_def u8_of_nat_eq)
  next
    case 4
    then show ?thesis using Suc
      by (simp add: button_poll_def held_state_def held_event_def)
  next
    case 5
    then show ?thesis using Suc
      by (simp add: button_poll_def held_state_def held_event_def)
  qed
qed

lemma poll_held_repeat:
  assumes "23 \<le> n"
  shows "button_poll ps pl pr 0 (held_state n) = (held_state (Suc n), held_event pr (Suc n))"
proof -
  obtain m where m: "n = 23 + m" using assms by (auto simp: le_iff_add)
  have j: "m mod 5 = 0 \<or> m mod 5 = 1 \<or> m mod 5 = 2 \<or> m mod 5 = 3 \<or> m mod 5 = 4" by arith
  have sm: "Suc m mod 5 = (if m mod 5 = 4 then 0 else m mod 5 + 1)" by arith
  from j show ?thesis
    by (auto simp: m sm button_poll_def held_state_def held_event_def word_le_nat_alt)
qed

lemma poll_held:
  "button_poll ps pl pr 0 (held_state n) = (held_state (Suc n), held_event pr (Suc n))"
  by (cases "n < 23") (simp_all add: poll_held_early poll_held_repeat)

lemma poll_release:
  "0 < n \<Longrightarrow> button_poll ps pl pr (Suc 0) (held_state n) = (button_idle, release_event ps pl n)"
  by (auto simp: button_poll_def held_state_def release_event_def button_idle_def)

lemma trace_held:
  "button_trace ps pl pr (replicate n 0 @ ls) (held_state k) =
     map (\<lambda>i. held_event pr (Suc (k + i))) [0..<n] @ button_trace ps pl pr ls (held_state (k + n))"
proof (induction n arbitrary: k)
  case 0
  then show ?case by simp
next
  case (Suc n)
  have "[0..<Suc n] = 0 # map Suc [0..<n]" by (simp add: upt_conv_Cons map_Suc_upt del: upt_Suc)
  then show ?case using Suc.IH [of "Suc k"] by (simp add: poll_held comp_def del: upt_Suc)
qed

lemma trace_held_then_released:
  assumes "0 < n"
  shows "button_trace ps pl pr (held_then_released n) button_idle =
     map (\<lambda>i. held_event pr (Suc i)) [0..<n] @ [release_event ps pl n]"
proof -
  have idle: "held_state 0 = button_idle" by (simp add: held_state_def)
  have "button_trace ps pl pr (replicate n 0 @ [1]) (held_state 0) =
      map (\<lambda>i. held_event pr (Suc (0 + i))) [0..<n] @ button_trace ps pl pr [1] (held_state (0 + n))"
    by (rule trace_held)
  then show ?thesis
    using assms by (simp add: idle held_then_released_def poll_release)
qed

lemma no_event_before_23:
  assumes "n \<le> 22"
  shows "map (\<lambda>i. held_event pr (Suc i)) [0..<n] = replicate n None"
proof -
  have "map (\<lambda>i. held_event pr (Suc i)) [0..<n] = map (\<lambda>i. None) [0..<n]"
    using assms by (intro map_cong) (auto simp: held_event_def)
  then show ?thesis by (simp add: map_replicate_trivial)
qed

text \<open>
  C4, as the source has it, for either button (\<open>ps\<close>, \<open>pl\<close> and \<open>pr\<close> are its short, long
  and repeat values). The list holds what each poll writes to \<open>press\<close>. A button read
  low in 1 to 9 consecutive polls and then high writes nothing while held and the short
  value at the release; read low in 10 to 21 polls, the long value at the release; read
  low in 22 polls or more, it writes nothing up to poll 22, the repeat value at poll 23
  and at every fifth poll after it, and nothing at the release.
\<close>

theorem button_hold_classification:
  "(1 \<le> n \<and> n \<le> 9 \<longrightarrow>
      button_trace ps pl pr (held_then_released n) button_idle = replicate n None @ [Some ps])
   \<and> (10 \<le> n \<and> n \<le> 21 \<longrightarrow>
      button_trace ps pl pr (held_then_released n) button_idle = replicate n None @ [Some pl])
   \<and> (22 \<le> n \<longrightarrow>
      button_trace ps pl pr (held_then_released n) button_idle =
        map (\<lambda>i. held_event pr (Suc i)) [0..<n] @ [None])"
  by (simp add: trace_held_then_released no_event_before_23 release_event_def)

text \<open>
  C4 on button 1 held for 7 polls, and on button 2 held for 19 and for 30 polls (repeat
  values at polls 23 and 28).
\<close>

theorem button_hold_classification_witness:
  "button_trace p_bt1_s p_bt1_l p_bt1_r (held_then_released 7) button_idle = replicate 7 None @ [Some p_bt1_s]
   \<and> button_trace p_bt2_s p_bt2_l p_bt2_r (held_then_released 19) button_idle = replicate 19 None @ [Some p_bt2_l]
   \<and> button_trace p_bt2_s p_bt2_l p_bt2_r (held_then_released 30) button_idle =
        replicate 22 None @ [Some p_bt2_r, None, None, None, None, Some p_bt2_r, None, None] @ [None]"
proof -
  have e: "map (\<lambda>i. held_event p_bt2_r (Suc i)) [0..<30] =
      replicate 22 None @ [Some p_bt2_r, None, None, None, None, Some p_bt2_r, None, None]"
    by code_simp
  show ?thesis
    using button_hold_classification [of 7 p_bt1_s p_bt1_l p_bt1_r]
      button_hold_classification [of 19 p_bt2_s p_bt2_l p_bt2_r]
      button_hold_classification [of 30 p_bt2_s p_bt2_l p_bt2_r]
    by (simp only: e) simp
qed

text \<open>
  C4 as claimed fails at its boundaries. A button held for 8 polls and released writes
  the short value, not the long one. A button held for 20 polls has written nothing at
  all by then: no long value is written at poll 20.
\<close>

theorem button_hold_eight_ticks_counterexample:
  "button_trace p_bt1_s p_bt1_l p_bt1_r (held_then_released 8) button_idle = replicate 8 None @ [Some p_bt1_s]
   \<and> button_trace p_bt1_s p_bt1_l p_bt1_r (replicate 20 0) button_idle = replicate 20 None"
  by code_simp

section \<open>Pump evaluator\<close>

text \<open>Once the global \<open>buseFlag\<close> is set, no iteration clears it or energises the pump.\<close>

lemma buse_task_latched:
  "buseFlag s \<noteq> 0 \<Longrightarrow>
   buseFlag (fst (buse_task now b s)) = buseFlag s \<and> snd (buse_task now b s) = [Write 1, Sleep 10000]"
  by (simp add: buse_task_def)

lemma buse_run_latched:
  "buseFlag s \<noteq> 0 \<Longrightarrow>
   buseFlag (fst (buse_run b ts s)) = buseFlag s
   \<and> snd (buse_run b ts s) = map (\<lambda>t. [Write 1, Sleep 10000]) ts"
proof (induction ts arbitrary: s)
  case Nil
  then show ?case by simp
next
  case (Cons t ts)
  obtain s1 ev where st: "buse_task t b s = (s1, ev)" by (cases "buse_task t b s")
  with Cons.prems buse_task_latched [of s t b]
  have s1: "buseFlag s1 = buseFlag s" "ev = [Write 1, Sleep 10000]"
    by simp_all
  with Cons.prems have "buseFlag s1 \<noteq> 0" by simp
  from Cons.IH [OF this] s1 st show ?case by (simp add: split_def)
qed

text \<open>
  C5. The claim: the latch clears once the minute has advanced past the start minute,
  so that the pump runs once on every day. The task sets the global \<open>buseFlag\<close> after a
  run and reads it in its condition, but the statement meant to clear it, under the
  comment "Flag to not enable it multiple times in the same min", assigns the local
  \<open>buseflag\<close>. With the pump enabled for 5 s in 08:00--21:00: the iteration at 08:00
  energises the pump for 5000 ms and releases it; the iterations at 08:01, 08:02, 23:59,
  00:00 and 07:59 leave the latch set; the iteration at 08:00 of the next day only
  releases the pump.
\<close>

theorem buse_task_latch_never_cleared:
  "buse_run buse_0800_2100
     [\<lparr>hours = 8, minutes = 0\<rparr>, \<lparr>hours = 8, minutes = 1\<rparr>, \<lparr>hours = 8, minutes = 2\<rparr>,
      \<lparr>hours = 23, minutes = 59\<rparr>, \<lparr>hours = 0, minutes = 0\<rparr>, \<lparr>hours = 7, minutes = 59\<rparr>,
      \<lparr>hours = 8, minutes = 0\<rparr>] buse_idle =
     (\<lparr>buseFlag = 1, buseflag = 0, busePin = 1\<rparr>,
      [[Write 0, Sleep 5000, Write 1, Sleep 10000],
       [Write 1, Sleep 10000], [Write 1, Sleep 10000], [Write 1, Sleep 10000],
       [Write 1, Sleep 10000], [Write 1, Sleep 10000], [Write 1, Sleep 10000]])"
  by (simp add: buse_0800_2100_def buse_idle_def buse_task_def)

section \<open>Restoring at boot\<close>

lemma restore_invalid_flag:
  assumes "length (lamps c) = 3"
  shows "(i < 3 \<and> 1 < e (1 + 5 * i + 4) \<longrightarrow>
        lamps (restoreFromEEPROM e c) ! i =
          \<lparr>onH = get_TIME e (1 + 5 * i), offH = get_TIME e (1 + 5 * i + 2), lamp_active = 0\<rparr>)
     \<and> (1 < e 21 \<longrightarrow>
        buse (restoreFromEEPROM e c) =
          \<lparr>buse_tOn = 0, startH = get_TIME e 17, stopH = get_TIME e 19, buse_active = 0\<rparr>)
     \<and> (1 < e 44 \<longrightarrow>
        brume (restoreFromEEPROM e c) =
          \<lparr>nbr = 0, extra_tOn = 0, times = map (\<lambda>k. get_TIME e (24 + 2 * k)) [0..<10], extra_active = 0\<rparr>)
     \<and> (1 < e 67 \<longrightarrow>
        bulles (restoreFromEEPROM e c) =
          \<lparr>nbr = 0, extra_tOn = 0, times = map (\<lambda>k. get_TIME e (47 + 2 * k)) [0..<10], extra_active = 0\<rparr>)"
proof -
  have "i < 3 \<Longrightarrow> i = 0 \<or> i = 1 \<or> i = 2" by arith
  then show ?thesis
    by (auto simp: restore_layout [OF assms] check_LAMP_def check_BUSE_def check_EXTRAS_def
        get_LAMP_def get_BUSE_def get_EXTRAS_def)
qed

lemma restore_lamps_independent:
  assumes "length (lamps c) = 3" "agree_outside e e' (1 + 5 * i) 5" "i < 3" "j < 3" "j \<noteq> i"
  shows "lamps (restoreFromEEPROM e' c) ! j = lamps (restoreFromEEPROM e c) ! j"
proof -
  have i: "i = 0 \<or> i = 1 \<or> i = 2" using assms(3) by arith
  have j: "j = 0 \<or> j = 1 \<or> j = 2" using assms(4) by arith
  from i j assms(2,5) show ?thesis
    by (auto simp: restore_layout [OF assms(1)] get_LAMP_def get_TIME_def agree_outside_def)
qed

lemma restore_independent_of_lamp:
  assumes "length (lamps c) = 3" "agree_outside e e' (1 + 5 * i) 5" "i < 3"
  shows "buse (restoreFromEEPROM e' c) = buse (restoreFromEEPROM e c)
     \<and> brume (restoreFromEEPROM e' c) = brume (restoreFromEEPROM e c)
     \<and> bulles (restoreFromEEPROM e' c) = bulles (restoreFromEEPROM e c)"
proof -
  have i: "i = 0 \<or> i = 1 \<or> i = 2" using assms(3) by arith
  from i assms(2) show ?thesis
    by (auto simp: restore_layout [OF assms(1)] get_BUSE_def get_EXTRAS_explicit get_TIME_def
        agree_outside_def)
qed

lemma restore_independent_of_buse:
  assumes "length (lamps c) = 3" "agree_outside e e' 16 6"
  shows "lamps (restoreFromEEPROM e' c) = lamps (restoreFromEEPROM e c)
     \<and> brume (restoreFromEEPROM e' c) = brume (restoreFromEEPROM e c)
     \<and> bulles (restoreFromEEPROM e' c) = bulles (restoreFromEEPROM e c)"
  using assms(2)
  by (simp add: restore_layout [OF assms(1)] get_LAMP_def get_EXTRAS_explicit get_TIME_def
      agree_outside_def)

lemma restore_independent_of_brume:
  assumes "length (lamps c) = 3" "agree_outside e e' 22 23"
  shows "lamps (restoreFromEEPROM e' c) = lamps (restoreFromEEPROM e c)
     \<and> buse (restoreFromEEPROM e' c) = buse (restoreFromEEPROM e c)
     \<and> bulles (restoreFromEEPROM e' c) = bulles (restoreFromEEPROM e c)"
  using assms(2)
  by (simp add: restore_layout [OF assms(1)] get_LAMP_def get_BUSE_def get_EXTRAS_explicit
      get_TIME_def agree_outside_def)

lemma restore_independent_of_bulles:
  assumes "length (lamps c) = 3" "agree_outside e e' 45 23"
  shows "lamps (restoreFromEEPROM e' c) = lamps (restoreFromEEPROM e c)
     \<and> buse (restoreFromEEPROM e' c) = buse (restoreFromEEPROM e c)
     \<and> brume (restoreFromEEPROM e' c) = brume (restoreFromEEPROM e c)"
  using assms(2)
  by (simp add: restore_layout [OF assms(1)] get_LAMP_def get_BUSE_def get_EXTRAS_explicit
      get_TIME_def agree_outside_def)

text \<open>
  C6, as the source has it. The enabled flag of lamp \<open>i\<close> is the byte at \<open>1 + 5 * i + 4\<close>,
  that of the pump the byte at 21, of brume at 44, of bulles at 67. A flag above 1 makes
  the restored device disabled and leaves its times of day as stored; for the pump the
  duration is reset to 0 as well, and for brume and bulles the duration and the count
  are. No other device is touched: two EEPROM contents that differ only inside the
  record of one device restore every other device alike.
\<close>

theorem restore_invalid_flag_disables_one_device:
  assumes "length (lamps c) = 3"
  shows "(i < 3 \<and> 1 < e (1 + 5 * i + 4) \<longrightarrow>
        lamps (restoreFromEEPROM e c) ! i =
          \<lparr>onH = get_TIME e (1 + 5 * i), offH = get_TIME e (1 + 5 * i + 2), lamp_active = 0\<rparr>)
     \<and> (1 < e 21 \<longrightarrow>
        buse (restoreFromEEPROM e c) =
          \<lparr>buse_tOn = 0, startH = get_TIME e 17, stopH = get_TIME e 19, buse_active = 0\<rparr>)
     \<and> (1 < e 44 \<longrightarrow>
        brume (restoreFromEEPROM e c) =
          \<lparr>nbr = 0, extra_tOn = 0, times = map (\<lambda>k. get_TIME e (24 + 2 * k)) [0..<10], extra_active = 0\<rparr>)
     \<and> (1 < e 67 \<longrightarrow>
        bulles (restoreFromEEPROM e c) =
          \<lparr>nbr = 0, extra_tOn = 0, times = map (\<lambda>k. get_TIME e (47 + 2 * k)) [0..<10], extra_active = 0\<rparr>)
     \<and> (i < 3 \<and> agree_outside e e' (1 + 5 * i) 5 \<longrightarrow>
        (\<forall>j<3. j \<noteq> i \<longrightarrow> lamps (restoreFromEEPROM e' c) ! j = lamps (restoreFromEEPROM e c) ! j)
        \<and> buse (restoreFromEEPROM e' c) = buse (restoreFromEEPROM e c)
        \<and> brume (restoreFromEEPROM e' c) = brume (restoreFromEEPROM e c)
        \<and> bulles (restoreFromEEPROM e' c) = bulles (restoreFromEEPROM e c))
     \<and> (agree_outside e e' 16 6 \<longrightarrow>
        lamps (restoreFromEEPROM e' c) = lamps (restoreFromEEPROM e c)
        \<and> brume (restoreFromEEPROM e' c) = brume (restoreFromEEPROM e c)
        \<and> bulles (restoreFromEEPROM e' c) = bulles (restoreFromEEPROM e c))
     \<and> (agree_outside e e' 22 23 \<longrightarrow>
        lamps (restoreFromEEPROM e' c) = lamps (restoreFromEEPROM e c)
        \<and> buse (restoreFromEEPROM e' c) = buse (restoreFromEEPROM e c)
        \<and> bulles (restoreFromEEPROM e' c) = bulles (restoreFromEEPROM e c))
     \<and> (agree_outside e e' 45 23 \<longrightarrow>
        lamps (restoreFromEEPROM e' c) = lamps (restoreFromEEPROM e c)
        \<and> buse (restoreFromEEPROM e' c) = buse (restoreFromEEPROM e c)
        \<and> brume (restoreFromEEPROM e' c) = brume (restoreFromEEPROM e c))"
  using restore_invalid_flag [OF assms, of i e]
    restore_lamps_independent [OF assms, of e e' i]
    restore_independent_of_lamp [OF assms, of e e' i]
    restore_independent_of_buse [OF assms, of e e']
    restore_independent_of_brume [OF assms, of e e']
    restore_independent_of_bulles [OF assms, of e e']
  by blast

text \<open>
  C6 on an EEPROM whose every byte is 7, so that every flag is 7: each device is
  restored disabled with the stored times 07:07; and setting the flag of the pump, of
  lamp 0, of brume or of bulles to 1 changes no other device.
\<close>

theorem restore_invalid_flag_disables_one_device_witness:
  "lamps (restoreFromEEPROM eeprom_sevens (seed_config zero_config)) ! 0 =
     \<lparr>onH = \<lparr>hours = 7, minutes = 7\<rparr>, offH = \<lparr>hours = 7, minutes = 7\<rparr>, lamp_active = 0\<rparr>
   \<and> buse (restoreFromEEPROM eeprom_sevens (seed_config zero_config)) =
     \<lparr>buse_tOn = 0, startH = \<lparr>hours = 7, minutes = 7\<rparr>, stopH = \<lparr>hours = 7, minutes = 7\<rparr>, buse_active = 0\<rparr>
   \<and> brume (restoreFromEEPROM eeprom_sevens (seed_config zero_config)) =
     \<lparr>nbr = 0, extra_tOn = 0, times = replicate 10 \<lparr>hours = 7, minutes = 7\<rparr>, extra_active = 0\<rparr>
   \<and> bulles (restoreFromEEPROM eeprom_sevens (seed_config zero_config)) =
     \<lparr>nbr = 0, extra_tOn = 0, times = replicate 10 \<lparr>hours = 7, minutes = 7\<rparr>, extra_active = 0\<rparr>
   \<and> lamps (restoreFromEEPROM (eeprom_sevens(21 := 1)) (seed_config zero_config)) =
     lamps (restoreFromEEPROM eeprom_sevens (seed_config zero_config))
   \<and> buse (restoreFromEEPROM (eeprom_sevens(5 := 1)) (seed_config zero_config)) =
     buse (restoreFromEEPROM eeprom_sevens (seed_config zero_config))
   \<and> buse (restoreFromEEPROM (eeprom_sevens(44 := 1)) (seed_config zero_config)) =
     buse (restoreFromEEPROM eeprom_sevens (seed_config zero_config))
   \<and> brume (restoreFromEEPROM (eeprom_sevens(67 := 1)) (seed_config zero_config)) =
     brume (restoreFromEEPROM eeprom_sevens (seed_config zero_config))"
proof -
  let ?c = "seed_config zero_config"
  note T = restore_invalid_flag_disables_one_device [OF seed_lamps_length]
  have seven: "\<And>a. get_TIME eeprom_sevens a = \<lparr>hours = 7, minutes = 7\<rparr>"
    by (simp add: get_TIME_def eeprom_sevens_def)
  have flags: "(0::nat) < 3 \<and> 1 < eeprom_sevens (1 + 5 * 0 + 4)" "1 < eeprom_sevens 21"
    "1 < eeprom_sevens 44" "1 < eeprom_sevens 67"
    by (simp_all add: eeprom_sevens_def)
  have agree: "agree_outside eeprom_sevens (eeprom_sevens(21 := 1)) 16 6"
    "(0::nat) < 3 \<and> agree_outside eeprom_sevens (eeprom_sevens(5 := 1)) (1 + 5 * 0) 5"
    "agree_outside eeprom_sevens (eeprom_sevens(44 := 1)) 22 23"
    "agree_outside eeprom_sevens (eeprom_sevens(67 := 1)) 45 23"
    by (simp_all add: agree_outside_def)
  have "lamps (restoreFromEEPROM eeprom_sevens ?c) ! 0 =
      \<lparr>onH = get_TIME eeprom_sevens (1 + 5 * 0), offH = get_TIME eeprom_sevens (1 + 5 * 0 + 2), lamp_active = 0\<rparr>"
    using T [of 0 eeprom_sevens eeprom_sevens] flags(1) by blast
  moreover have "buse (restoreFromEEPROM eeprom_sevens ?c) =
      \<lparr>buse_tOn = 0, startH = get_TIME eeprom_sevens 17, stopH = get_TIME eeprom_sevens 19, buse_active = 0\<rparr>"
    using T [of 0 eeprom_sevens eeprom_sevens] flags(2) by blast
  moreover have "brume (restoreFromEEPROM eeprom_sevens ?c) =
      \<lparr>nbr = 0, extra_tOn = 0, times = map (\<lambda>k. get_TIME eeprom_sevens (24 + 2 * k)) [0..<10], extra_active = 0\<rparr>"
    using T [of 0 eeprom_sevens eeprom_sevens] flags(3) by blast
  moreover have "bulles (restoreFromEEPROM eeprom_sevens ?c) =
      \<lparr>nbr = 0, extra_tOn = 0, times = map (\<lambda>k. get_TIME eeprom_sevens (47 + 2 * k)) [0..<10], extra_active = 0\<rparr>"
    using T [of 0 eeprom_sevens eeprom_sevens] flags(4) by blast
  moreover have "lamps (restoreFromEEPROM (eeprom_sevens(21 := 1)) ?c) = lamps (restoreFromEEPROM eeprom_sevens ?c)"
    using T [of 0 eeprom_sevens "eeprom_sevens(21 := 1)"] agree(1) by blast
  moreover have "buse (restoreFromEEPROM (eeprom_sevens(5 := 1)) ?c) = buse (restoreFromEEPROM eeprom_sevens ?c)"
    using T [of 0 eeprom_sevens "eeprom_sevens(5 := 1)"] agree(2) by blast
  moreover have "buse (restoreFromEEPROM (eeprom_sevens(44 := 1)) ?c) = buse (restoreFromEEPROM eeprom_sevens ?c)"
    using T [of 0 eeprom_sevens "eeprom_sevens(44 := 1)"] agree(3) by blast
  moreover have "brume (restoreFromEEPROM (eeprom_sevens(67 := 1)) ?c) = brume (restoreFromEEPROM eeprom_sevens ?c)"
    using T [of 0 eeprom_sevens "eeprom_sevens(67 := 1)"] agree(4) by blast
  ultimately show ?thesis
    by (simp add: seven map_replicate_trivial)
qed

text \<open>
  C6 as claimed fails on the duration. A pump record stored as 5 s, 08:00--21:00 with
  the flag byte 7 is restored with the duration 0, not 5; its times are as stored.
\<close>

theorem restore_invalid_flag_resets_duration_counterexample:
  "get_BUSE eeprom_pump_flag_7 16 =
     \<lparr>buse_tOn = 5, startH = \<lparr>hours = 8, minutes = 0\<rparr>, stopH = \<lparr>hours = 21, minutes = 0\<rparr>, buse_active = 7\<rparr>
   \<and> buse (restoreFromEEPROM eeprom_pump_flag_7 (seed_config zero_config)) =
     \<lparr>buse_tOn = 0, startH = \<lparr>hours = 8, minutes = 0\<rparr>, stopH = \<lparr>hours = 21, minutes = 0\<rparr>, buse_active = 0\<rparr>
   \<and> buse_tOn (buse (restoreFromEEPROM eeprom_pump_flag_7 (seed_config zero_config)))
       \<noteq> buse_tOn (get_BUSE eeprom_pump_flag_7 16)"
  by (simp add: restore_layout [OF seed_lamps_length] eeprom_pump_flag_7_def get_BUSE_def get_TIME_def
      check_BUSE_def)

text \<open>
  C8. When the display has started and the RTC is running: with a marker byte other
  than 2 the boot reads no other byte, the configuration is the seeded one (lamp 1 at
  08:00--22:00, the pump at 5 s in 08:00--21:00, everything else zero) and the menu is
  the setup menu; with the marker byte 2 every field of the configuration is the byte
  stored for it (lamps at 1 to 15, the pump at 16 to 21, brume at 22 to 44, bulles at
  45 to 67), but for the fields that a failed check resets to 0, and the menu is off.
  The marker 2 is the byte that \<open>saveToEEPROM\<close> leaves at address 0.
\<close>

theorem boot_marker_gates_restore:
  "display_ok \<and> rtc_running \<longrightarrow>
     (e 0 \<noteq> 2 \<longrightarrow>
        boot_setup display_ok rtc_running e =
          Some (\<lparr>lamps = [zero_LAMP,
                          \<lparr>onH = \<lparr>hours = 8, minutes = 0\<rparr>, offH = \<lparr>hours = 22, minutes = 0\<rparr>, lamp_active = 0\<rparr>,
                          zero_LAMP],
                 buse = \<lparr>buse_tOn = 5, startH = \<lparr>hours = 8, minutes = 0\<rparr>,
                         stopH = \<lparr>hours = 21, minutes = 0\<rparr>, buse_active = 0\<rparr>,
                 brume = zero_EXTRAS, bulles = zero_EXTRAS\<rparr>,
                zero_ui\<lparr>menu := m_setup\<rparr>))
     \<and> (e 0 = 2 \<longrightarrow>
        boot_setup display_ok rtc_running e =
          Some (\<lparr>lamps =
                   [\<lparr>onH = \<lparr>hours = e 1, minutes = e 2\<rparr>, offH = \<lparr>hours = e 3, minutes = e 4\<rparr>,
                     lamp_active = (if 1 < e 5 then 0 else e 5)\<rparr>,
                    \<lparr>onH = \<lparr>hours = e 6, minutes = e 7\<rparr>, offH = \<lparr>hours = e 8, minutes = e 9\<rparr>,
                     lamp_active = (if 1 < e 10 then 0 else e 10)\<rparr>,
                    \<lparr>onH = \<lparr>hours = e 11, minutes = e 12\<rparr>, offH = \<lparr>hours = e 13, minutes = e 14\<rparr>,
                     lamp_active = (if 1 < e 15 then 0 else e 15)\<rparr>],
                 buse =
                   \<lparr>buse_tOn = (if 1 < e 21 \<or> 200 < e 16 then 0 else e 16),
                    startH = \<lparr>hours = e 17, minutes = e 18\<rparr>,
                    stopH = \<lparr>hours = e 19, minutes = e 20\<rparr>,
                    buse_active = (if 1 < e 21 \<or> 200 < e 16 then 0 else e 21)\<rparr>,
                 brume =
                   \<lparr>nbr = (if 1 < e 44 \<or> 10 < e 22 \<or> 200 < e 23 then 0 else e 22),
                    extra_tOn = (if 1 < e 44 \<or> 10 < e 22 \<or> 200 < e 23 then 0 else e 23),
                    times = map (\<lambda>k. \<lparr>hours = e (24 + 2 * k), minutes = e (25 + 2 * k)\<rparr>) [0..<10],
                    extra_active = (if 1 < e 44 \<or> 10 < e 22 \<or> 200 < e 23 then 0 else e 44)\<rparr>,
                 bulles =
                   \<lparr>nbr = (if 1 < e 67 \<or> 10 < e 45 \<or> 200 < e 46 then 0 else e 45),
                    extra_tOn = (if 1 < e 67 \<or> 10 < e 45 \<or> 200 < e 46 then 0 else e 46),
                    times = map (\<lambda>k. \<lparr>hours = e (47 + 2 * k), minutes = e (48 + 2 * k)\<rparr>) [0..<10],
                    extra_active = (if 1 < e 67 \<or> 10 < e 45 \<or> 200 < e 46 then 0 else e 67)\<rparr>\<rparr>,
                zero_ui\<lparr>menu := m_off\<rparr>))
     \<and> fst (saveToEEPROM (e, c, s)) 0 = 2"
  apply (simp add: boot_setup_def restore_layout [OF seed_lamps_length] save_marker
      check_LAMP_def check_BUSE_def check_EXTRAS_def get_LAMP_def get_BUSE_def get_EXTRAS_def
      get_TIME_def)
  apply (simp add: seed_config_def zero_config_def zero_LAMP_def zero_TIME_def)
  apply (simp add: numeral_eq_Suc)
  done

text \<open>
  C8 on an erased EEPROM (marker 255), and on one that holds the marker 2 and a record
  for every device: the whole configuration is the stored one.
\<close>

theorem boot_marker_gates_restore_witness:
  "boot_setup True True eeprom_erased =
     Some (\<lparr>lamps = [zero_LAMP,
                     \<lparr>onH = \<lparr>hours = 8, minutes = 0\<rparr>, offH = \<lparr>hours = 22, minutes = 0\<rparr>, lamp_active = 0\<rparr>,
                     zero_LAMP],
            buse = \<lparr>buse_tOn = 5, startH = \<lparr>hours = 8, minutes = 0\<rparr>,
                    stopH = \<lparr>hours = 21, minutes = 0\<rparr>, buse_active = 0\<rparr>,
            brume = zero_EXTRAS, bulles = zero_EXTRAS\<rparr>,
           zero_ui\<lparr>menu := m_setup\<rparr>)
   \<and> boot_setup True True eeprom_configured =
     Some (\<lparr>lamps = [\<lparr>onH = \<lparr>hours = 7, minutes = 30\<rparr>, offH = \<lparr>hours = 19, minutes = 45\<rparr>, lamp_active = 1\<rparr>,
                     \<lparr>onH = \<lparr>hours = 8, minutes = 0\<rparr>, offH = \<lparr>hours = 22, minutes = 0\<rparr>, lamp_active = 1\<rparr>,
                     \<lparr>onH = \<lparr>hours = 21, minutes = 15\<rparr>, offH = \<lparr>hours = 23, minutes = 50\<rparr>, lamp_active = 0\<rparr>],
            buse = \<lparr>buse_tOn = 12, startH = \<lparr>hours = 9, minutes = 5\<rparr>,
                    stopH = \<lparr>hours = 20, minutes = 40\<rparr>, buse_active = 1\<rparr>,
            brume = \<lparr>nbr = 3, extra_tOn = 10,
                     times = [\<lparr>hours = 6, minutes = 5\<rparr>, \<lparr>hours = 9, minutes = 10\<rparr>,
                              \<lparr>hours = 12, minutes = 15\<rparr>, \<lparr>hours = 13, minutes = 25\<rparr>,
                              \<lparr>hours = 14, minutes = 35\<rparr>, \<lparr>hours = 15, minutes = 45\<rparr>,
                              \<lparr>hours = 16, minutes = 55\<rparr>, \<lparr>hours = 17, minutes = 6\<rparr>,
                              \<lparr>hours = 18, minutes = 16\<rparr>, \<lparr>hours = 1, minutes = 2\<rparr>],
                     extra_active = 1\<rparr>,
            bulles = \<lparr>nbr = 2, extra_tOn = 25,
                      times = [\<lparr>hours = 10, minutes = 1\<rparr>, \<lparr>hours = 11, minutes = 2\<rparr>,
                               \<lparr>hours = 20, minutes = 3\<rparr>, \<lparr>hours = 21, minutes = 4\<rparr>,
                               \<lparr>hours = 22, minutes = 7\<rparr>, \<lparr>hours = 23, minutes = 8\<rparr>,
                               \<lparr>hours = 1, minutes = 11\<rparr>, \<lparr>hours = 2, minutes = 12\<rparr>,
                               \<lparr>hours = 3, minutes = 13\<rparr>, \<lparr>hours = 4, minutes = 14\<rparr>],
                      extra_active = 0\<rparr>\<rparr>,
           zero_ui\<lparr>menu := m_off\<rparr>)"
  using boot_marker_gates_restore [of True True eeprom_erased zero_config zero_ui]
    boot_marker_gates_restore [of True True eeprom_configured zero_config zero_ui]
  by (simp add: eeprom_erased_def eeprom_configured_def upt_0_10)

section \<open>Multi-event menu\<close>

text \<open>
  C7. With ten triggers stored, confirming "add" (selector at 1, short press on button 1
  in sub-state 0) leads to sub-state 2; the next call finds no room, leaves the device
  as it is and goes to sub-state 6; in sub-state 6 a call either changes nothing or, on
  a short press of either button, returns to the setup menu with the cursor reset. The
  device is never changed on the way.
\<close>

theorem extra_menu_add_at_capacity:
  "(nbr thing = 10 \<and> subMenu s = 0 \<and> setupVal s = 1 \<and> press s = p_bt1_s \<longrightarrow>
      extra_menu thing s = Some (thing, s\<lparr>nbr_setup := 1, press := p_none, subMenu := 2\<rparr>))
   \<and> (nbr thing = 10 \<and> subMenu s = 2 \<longrightarrow> extra_menu thing s = Some (thing, s\<lparr>subMenu := 6\<rparr>))
   \<and> (subMenu s = 6 \<longrightarrow>
      extra_menu thing s =
        Some (thing,
          if press s = p_bt1_s \<or> press s = p_bt2_s
          then s\<lparr>press := p_none, HorM := 0, menu := m_setup, subMenu := 0, choosed := 0, setupVal := 0\<rparr>
          else s))"
  by (simp add: extra_menu_def extra_entry_def extra_case0_def extra_case2_def extra_case6_def
      back_to_setup_def Let_def)

text \<open>C7 on a brume record with ten triggers: the run ends in the setup menu, the record unchanged.\<close>

theorem extra_menu_add_at_capacity_witness:
  "extra_menu extras_full ui_add_chosen = Some (extras_full, ui_add_chosen\<lparr>press := p_none, subMenu := 2\<rparr>)
   \<and> extra_menu extras_full (ui_add_chosen\<lparr>press := p_none, subMenu := 2\<rparr>)
       = Some (extras_full, ui_add_chosen\<lparr>press := p_none, subMenu := 6\<rparr>)
   \<and> extra_menu extras_full (ui_add_chosen\<lparr>press := p_bt1_l, subMenu := 6\<rparr>)
       = Some (extras_full, ui_add_chosen\<lparr>press := p_bt1_l, subMenu := 6\<rparr>)
   \<and> extra_menu extras_full (ui_add_chosen\<lparr>press := p_bt2_s, subMenu := 6\<rparr>)
       = Some (extras_full, zero_ui\<lparr>menu := m_setup, nbr_setup := 1\<rparr>)"
  using extra_menu_add_at_capacity [of extras_full ui_add_chosen]
    extra_menu_add_at_capacity [of extras_full "ui_add_chosen\<lparr>press := p_none, subMenu := 2\<rparr>"]
    extra_menu_add_at_capacity [of extras_full "ui_add_chosen\<lparr>press := p_bt1_l, subMenu := 6\<rparr>"]
    extra_menu_add_at_capacity [of extras_full "ui_add_chosen\<lparr>press := p_bt2_s, subMenu := 6\<rparr>"]
  by (simp add: extras_full_def ui_add_chosen_def zero_ui_def)

text \<open>
  C10. With no trigger stored, a call in sub-state 0 never runs the add-or-edit case:
  it sets sub-state 3, the selector maximum 59 and the selector to the stored duration,
  and the duration case handles the press of that same call (with no press pending the
  state is exactly that). A short press on button 1 in sub-state 3 stores the selector
  as the duration and goes to sub-state 4; there a short press on button 2 enables a
  disabled device, and a short press on button 1, the device enabled and still without
  a trigger, goes to sub-state 2; the call in sub-state 2 appends slot 0 (the count
  becomes 1), presets 08:00 and goes to sub-state 5, where \<open>hourSelection\<close> edits the
  time and a short press on button 1 with the minute in focus stores it in the slot.
\<close>

theorem extra_menu_first_trigger_flow:
  "(nbr thing = 0 \<and> subMenu s = 0 \<and> press s = p_none \<longrightarrow>
      extra_menu thing s = Some (thing, s\<lparr>subMenu := 3, nbr_setup := 59, setupVal := extra_tOn thing\<rparr>))
   \<and> (nbr thing = 0 \<and> subMenu s = 0 \<longrightarrow>
      (case extra_menu thing s of
         None \<Rightarrow> False
       | Some (thing', s') \<Rightarrow> (subMenu s' = 3 \<or> subMenu s' = 4) \<and> nbr_setup s' = 59 \<and> nbr thing' = 0))
   \<and> (subMenu s = 3 \<and> press s = p_bt1_s \<longrightarrow>
      extra_menu thing s = Some (thing\<lparr>extra_tOn := setupVal s\<rparr>, s\<lparr>press := p_none, subMenu := 4\<rparr>))
   \<and> (subMenu s = 4 \<and> press s = p_bt2_s \<and> extra_active thing = 0 \<longrightarrow>
      extra_menu thing s = Some (thing\<lparr>extra_active := 1\<rparr>, s\<lparr>press := p_none\<rparr>))
   \<and> (subMenu s = 4 \<and> press s = p_bt1_s \<and> extra_active thing \<noteq> 0 \<and> nbr thing = 0
        \<and> unat (choosed s) < length (times thing) \<longrightarrow>
      extra_menu thing s =
        Some (thing, s\<lparr>press := p_none, timeSelected := times thing ! unat (choosed s), subMenu := 2\<rparr>))
   \<and> (subMenu s = 2 \<and> nbr thing = 0 \<longrightarrow>
      extra_menu thing s =
        Some (thing\<lparr>nbr := 1\<rparr>, s\<lparr>choosed := 0, subMenu := 5, timeSelected := \<lparr>hours = 8, minutes = 0\<rparr>\<rparr>))
   \<and> (subMenu s = 5 \<and> press s \<noteq> p_bt1_s \<and> press s \<noteq> p_bt1_l \<longrightarrow>
      extra_menu thing s = Some (thing, hourSelection s))
   \<and> (subMenu s = 5 \<and> press s = p_bt1_s \<and> HorM s \<noteq> 0 \<and> unat (choosed s) < length (times thing) \<longrightarrow>
      extra_menu thing s =
        Some (thing\<lparr>times := (times thing)[unat (choosed s) := timeSelected s]\<rparr>,
              s\<lparr>press := p_none, HorM := 0, menu := m_setup, subMenu := 0, choosed := 0, setupVal := 0\<rparr>))"
  apply (intro conjI impI)
         apply (simp add: extra_menu_def extra_entry_def extra_case3_def Let_def)
        apply (auto simp add: extra_menu_def extra_entry_def extra_case3_def Let_def next_setupVal_def)[1]
       apply (simp add: extra_menu_def extra_entry_def extra_case3_def Let_def)
      apply (simp add: extra_menu_def extra_entry_def extra_case4_def Let_def)
     apply (simp add: extra_menu_def extra_entry_def extra_case4_def Let_def times_read_def)
    apply (simp add: extra_menu_def extra_entry_def extra_case2_def Let_def)
   apply (auto simp add: extra_menu_def extra_entry_def extra_case5_def Let_def hourSelection_def)[1]
  apply (simp add: extra_menu_def extra_entry_def extra_case5_def Let_def hourSelection_def
      times_write_def back_to_setup_def)
  done

text \<open>
  C10 on an empty brume record entered from the setup menu: no press, commit the
  duration, enable, confirm, and one more call lead to sub-state 5 with one slot
  appended and 08:00 preset; an hour step, a confirmation of the hour, a repeat step of
  the minute and a confirmation then store 09:05 in slot 0.
\<close>

theorem extra_menu_first_trigger_flow_witness:
  "extra_run [None, Some p_bt1_s, Some p_bt2_s, Some p_bt1_s, None] (zero_EXTRAS, ui_entered) =
     Some (zero_EXTRAS\<lparr>nbr := 1, extra_active := 1\<rparr>,
           ui_entered\<lparr>subMenu := 5, nbr_setup := 59, timeSelected := \<lparr>hours = 8, minutes = 0\<rparr>\<rparr>)
   \<and> extra_run [Some p_bt2_s, Some p_bt1_s, Some p_bt2_r, Some p_bt1_s]
       (zero_EXTRAS\<lparr>nbr := 1, extra_active := 1\<rparr>,
        ui_entered\<lparr>subMenu := 5, nbr_setup := 59, timeSelected := \<lparr>hours = 8, minutes = 0\<rparr>\<rparr>) =
     Some (zero_EXTRAS\<lparr>nbr := 1, extra_active := 1, times := \<lparr>hours = 9, minutes = 5\<rparr> # replicate 9 zero_TIME\<rparr>,
           ui_entered\<lparr>menu := m_setup, nbr_setup := 59, timeSelected := \<lparr>hours = 9, minutes = 5\<rparr>\<rparr>)"
proof -
  note T = extra_menu_first_trigger_flow
  note defs = zero_EXTRAS_def ui_entered_def zero_ui_def zero_TIME_def
  let ?u3 = "ui_entered\<lparr>subMenu := 3, nbr_setup := 59\<rparr>"
  let ?u4 = "ui_entered\<lparr>subMenu := 4, nbr_setup := 59\<rparr>"
  let ?u5 = "ui_entered\<lparr>subMenu := 5, nbr_setup := 59, timeSelected := \<lparr>hours = 8, minutes = 0\<rparr>\<rparr>"
  let ?on = "zero_EXTRAS\<lparr>extra_active := 1\<rparr>"
  let ?one = "zero_EXTRAS\<lparr>nbr := 1, extra_active := 1\<rparr>"
  have e1: "extra_menu zero_EXTRAS ui_entered = Some (zero_EXTRAS, ?u3)"
    using T [of zero_EXTRAS ui_entered, THEN conjunct1] by (simp add: defs)
  have e2: "extra_menu zero_EXTRAS (?u3\<lparr>press := p_bt1_s\<rparr>) = Some (zero_EXTRAS, ?u4)"
    using T [of zero_EXTRAS "?u3\<lparr>press := p_bt1_s\<rparr>", THEN conjunct2, THEN conjunct2, THEN conjunct1]
    by (simp add: defs)
  have e3: "extra_menu zero_EXTRAS (?u4\<lparr>press := p_bt2_s\<rparr>) = Some (?on, ?u4)"
    using T [of zero_EXTRAS "?u4\<lparr>press := p_bt2_s\<rparr>",
        THEN conjunct2, THEN conjunct2, THEN conjunct2, THEN conjunct1]
    by (simp add: defs)
  have e4: "extra_menu ?on (?u4\<lparr>press := p_bt1_s\<rparr>) = Some (?on, ui_entered\<lparr>subMenu := 2, nbr_setup := 59\<rparr>)"
    using T [of ?on "?u4\<lparr>press := p_bt1_s\<rparr>",
        THEN conjunct2, THEN conjunct2, THEN conjunct2, THEN conjunct2, THEN conjunct1]
    by (simp add: defs)
  have e5: "extra_menu ?on (ui_entered\<lparr>subMenu := 2, nbr_setup := 59\<rparr>) = Some (?one, ?u5)"
    using T [of ?on "ui_entered\<lparr>subMenu := 2, nbr_setup := 59\<rparr>",
        THEN conjunct2, THEN conjunct2, THEN conjunct2, THEN conjunct2, THEN conjunct2, THEN conjunct1]
    by (simp add: defs)
  have e6: "extra_menu ?one (?u5\<lparr>press := p_bt2_s\<rparr>) =
      Some (?one, ?u5\<lparr>timeSelected := \<lparr>hours = 9, minutes = 0\<rparr>\<rparr>)"
    using T [of ?one "?u5\<lparr>press := p_bt2_s\<rparr>",
        THEN conjunct2, THEN conjunct2, THEN conjunct2, THEN conjunct2, THEN conjunct2, THEN conjunct2,
        THEN conjunct1]
    by (simp add: defs hourSelection_def)
  have e7: "extra_menu ?one (?u5\<lparr>timeSelected := \<lparr>hours = 9, minutes = 0\<rparr>, press := p_bt1_s\<rparr>) =
      Some (?one, ?u5\<lparr>timeSelected := \<lparr>hours = 9, minutes = 0\<rparr>, HorM := 1\<rparr>)"
    by (simp add: defs extra_menu_def extra_entry_def extra_case5_def hourSelection_def)
  have e8: "extra_menu ?one (?u5\<lparr>timeSelected := \<lparr>hours = 9, minutes = 0\<rparr>, HorM := 1, press := p_bt2_r\<rparr>) =
      Some (?one, ?u5\<lparr>timeSelected := \<lparr>hours = 9, minutes = 5\<rparr>, HorM := 1\<rparr>)"
    using T [of ?one "?u5\<lparr>timeSelected := \<lparr>hours = 9, minutes = 0\<rparr>, HorM := 1, press := p_bt2_r\<rparr>",
        THEN conjunct2, THEN conjunct2, THEN conjunct2, THEN conjunct2, THEN conjunct2, THEN conjunct2,
        THEN conjunct1]
    by (simp add: defs hourSelection_def)
  have e9: "extra_menu ?one (?u5\<lparr>timeSelected := \<lparr>hours = 9, minutes = 5\<rparr>, HorM := 1, press := p_bt1_s\<rparr>) =
      Some (?one\<lparr>times := \<lparr>hours = 9, minutes = 5\<rparr> # replicate 9 zero_TIME\<rparr>,
            ui_entered\<lparr>menu := m_setup, nbr_setup := 59, timeSelected := \<lparr>hours = 9, minutes = 5\<rparr>\<rparr>)"
    using T [of ?one "?u5\<lparr>timeSelected := \<lparr>hours = 9, minutes = 5\<rparr>, HorM := 1, press := p_bt1_s\<rparr>",
        THEN conjunct2, THEN conjunct2, THEN conjunct2, THEN conjunct2, THEN conjunct2, THEN conjunct2,
        THEN conjunct2]
    by (simp add: defs replicate_10 replicate_9)
  show ?thesis
    using e1 e2 e3 e4 e5 e6 e7 e8 e9 by simp
qed

end
